(* ===== verification/Prelude.thy ===== *)
theory Prelude
  imports Main "HOL-Library.Word"
begin

text \<open>
  Shared vocabulary of the restaurant-user development: the machine types the
  digest works on, the model of Go's \<open>error\<close> values (the standard library's
  \<open>errors.Is\<close> and \<open>github.com/pkg/errors.Wrap\<close>, through which every component
  reports failure), the result shapes of Go functions that return \<open>(T, error)\<close>
  or only \<open>error\<close>, the lemma collections the component theories fill, and
  generic list lemmas they share.
\<close>

unbundle bit_operations_syntax

section \<open>Machine types\<close>

type_synonym byte = "8 word"
type_synonym u32 = "32 word"
type_synonym u64 = "64 word"

section \<open>Lemma collections\<close>

named_theorems go_error_simps "equations of the Go error model"
named_theorems repo_simps "equations of the table repository's operations"
named_theorems digest_facts "shape of the password digest (length, alphabet)"

section \<open>Go error values\<close>

text \<open>
  A Go \<open>error\<close> is modelled by how it was built: a sentinel created with
  \<open>errors.New\<close> in a package variable (identified by its package and name, as
  Go identifies it by pointer), an error wrapped with context by
  \<open>errors.Wrap(err, msg)\<close> (pkg/errors: a \<open>withStack\<close> around a
  \<open>withMessage\<close> whose \<open>Unwrap\<close> is \<open>err\<close>), or any other error, known only by
  its message.
\<close>

datatype go_error =
    Sentinel string string
  | Wrapped string go_error
  | Opaque string

text \<open>\<open>errors.Is(err, target)\<close>: \<open>err == target\<close>, or the same test on \<open>Unwrap(err)\<close>.\<close>

fun errors_is :: "go_error \<Rightarrow> go_error \<Rightarrow> bool" where
  "errors_is (Wrapped msg e) target = (Wrapped msg e = target \<or> errors_is e target)"
| "errors_is e target = (e = target)"

text \<open>\<open>errors.Wrap(err, msg)\<close> for a non-nil \<open>err\<close> (the only way the code calls it).\<close>

definition errors_Wrap :: "go_error \<Rightarrow> string \<Rightarrow> go_error" where
  "errors_Wrap e msg = Wrapped msg e"

text \<open>\<open>err.Error()\<close>: a wrapped error prints its context, a colon and its cause.\<close>

fun error_msg :: "go_error \<Rightarrow> string" where
  "error_msg (Sentinel pkg msg) = msg"
| "error_msg (Wrapped msg e) = msg @ '': '' @ error_msg e"
| "error_msg (Opaque msg) = msg"

text \<open>
  Result shapes: \<open>(T, error)\<close> is \<open>go_error + T\<close> (\<open>Inl\<close> the non-nil error, the
  \<open>T\<close> being nil then); a lone \<open>error\<close> is \<open>go_error option\<close> (\<open>None\<close> is nil).
  A call on an external collaborator with state \<open>'s\<close> returns the new state too.
\<close>

type_synonym 'a go_result = "go_error + 'a"
type_synonym ('a, 's) go_call = "'a go_result \<times> 's"
type_synonym 's go_call_err = "go_error option \<times> 's"

lemma errors_is_refl [simp, go_error_simps]: "errors_is e e"
  by (cases e) simp_all

lemma errors_is_Wrap [simp, go_error_simps]:
  "errors_is (errors_Wrap e msg) t = (Wrapped msg e = t \<or> errors_is e t)"
  by (simp add: errors_Wrap_def)

lemma errors_is_Sentinel [simp, go_error_simps]:
  "errors_is (Sentinel p m) t = (t = Sentinel p m)"
  "errors_is (Opaque m) t = (t = Opaque m)"
  by auto

lemma error_msg_Wrap [simp, go_error_simps]:
  "error_msg (errors_Wrap e msg) = msg @ '': '' @ error_msg e"
  by (simp add: errors_Wrap_def)

text \<open>A wrapped error is never a sentinel: callers can tell context-wrapped failures apart.\<close>

lemma errors_Wrap_not_Sentinel [simp, go_error_simps]:
  "errors_Wrap e msg \<noteq> Sentinel p m"
  by (simp add: errors_Wrap_def)

text \<open>Wrapping keeps every error the cause already matched (the chain is only extended).\<close>

lemma errors_is_Wrap_mono:
  "errors_is e t \<Longrightarrow> errors_is (errors_Wrap e msg) t"
  by simp

section \<open>Lists\<close>

lemma length_concat_map_const:
  "(\<And>x. x \<in> set xs \<Longrightarrow> length (f x) = k) \<Longrightarrow> length (concat (map f xs)) = k * length xs"
  by (induction xs) auto

lemma set_concat_map_subset:
  "(\<And>x. x \<in> set xs \<Longrightarrow> set (f x) \<subseteq> A) \<Longrightarrow> set (concat (map f xs)) \<subseteq> A"
  by auto

lemma distinct_map_filter_sub:
  "distinct (map f xs) \<Longrightarrow> distinct (map f (filter P xs))"
  by (induction xs) auto

text \<open>Searching a list whose keys are distinct for a key is a lookup by that key.\<close>

lemma find_unique_key:
  "distinct (map f xs) \<Longrightarrow>
   find (\<lambda>x. f x = k \<and> Q x) xs =
     (case map_of (map (\<lambda>x. (f x, x)) xs) k of None \<Rightarrow> None | Some x \<Rightarrow> if Q x then Some x else None)"
proof (induction xs)
  case Nil
  then show ?case by simp
next
  case (Cons a xs)
  show ?case
  proof (cases "f a = k")
    case True
    with Cons.prems have "find (\<lambda>x. f x = k \<and> Q x) xs = None"
      by (auto simp add: find_None_iff image_iff)
    with True show ?thesis by simp
  next
    case False
    with Cons show ?thesis by simp
  qed
qed

text \<open>Splitting a string at the first occurrence of a separator.\<close>

lemma takeWhile_neq_append: "c \<notin> set xs \<Longrightarrow> takeWhile (\<lambda>x. x \<noteq> c) (xs @ c # ys) = xs"
  by (induction xs) auto

lemma dropWhile_neq_append: "c \<notin> set xs \<Longrightarrow> dropWhile (\<lambda>x. x \<noteq> c) (xs @ c # ys) = c # ys"
  by (induction xs) auto

lemma map_update_where_same_key:
  "(\<And>x. f (g x) = f x) \<Longrightarrow>
   map f (map (\<lambda>x. if P x then g x else x) xs) = map f xs"
  by (induction xs) auto

lemma find_append_none: "\<not> list_ex P xs \<Longrightarrow> find P (xs @ ys) = find P ys"
  by (induction xs) auto

lemma find_Some_set: "find P xs = Some x \<Longrightarrow> x \<in> set xs \<and> P x"
  by (induction xs) (auto split: if_splits)

end
