(* ===== verification/Encryption.thy ===== *)
theory Encryption
  imports Prelude
begin

text \<open>
  The password digest. \<open>encryption.EncodeMD5\<close> (package pkg/encryption of the
  repository, not under src/) is \<open>hex.EncodeToString\<close> of the MD5 sum of the
  string's bytes. The MD5 sum is modelled as Go's \<open>crypto/md5\<close> computes it
  (RFC 1321): padding with \<open>0x80\<close>, zeros and the 64-bit little-endian bit
  length; a loop over the 64-byte blocks; 64 rounds per block on four 32-bit
  registers with wrap-around addition and left rotation, in the forms of
  Go's \<open>md5block.go\<close>. The hex encoder is \<open>encoding/hex\<close>'s.
  Results: the padded message is whole blocks and starts with the message;
  the block loop terminates and streams (processing a prefix of whole blocks
  first gives the same state); Go's round functions equal RFC 1321's;
  the rotation equals the library's \<open>word_rotl\<close>; the byte/word conversions
  round-trip; the hex encoder is inverted by Go's decoder; every digest is
  32 lowercase hex characters; the RFC 1321 test vectors hold.
\<close>

section \<open>Bytes of a string\<close>

text \<open>\<open>[]byte(s)\<close>: a Go string is its bytes; an Isabelle \<open>char\<close> is one byte.\<close>

definition go_bytes :: "string \<Rightarrow> byte list" where
  "go_bytes s = map of_char s"

section \<open>Little-endian conversions\<close>

text \<open>\<open>binary.LittleEndian.Uint32\<close> on four bytes.\<close>

definition le32 :: "byte list \<Rightarrow> u32" where
  "le32 bs = ucast (bs ! 0) OR push_bit 8 (ucast (bs ! 1))
             OR push_bit 16 (ucast (bs ! 2)) OR push_bit 24 (ucast (bs ! 3))"

text \<open>The low \<open>n\<close> bytes of a word, least significant first (\<open>PutUint32\<close>, \<open>PutUint64\<close>).\<close>

definition le_bytes :: "nat \<Rightarrow> 'a::len word \<Rightarrow> byte list" where
  "le_bytes n w = map (\<lambda>i. ucast (drop_bit (8 * i) w)) [0..<n]"

text \<open>A 64-byte block read as sixteen little-endian words.\<close>

fun le_words :: "byte list \<Rightarrow> u32 list" where
  "le_words (b0 # b1 # b2 # b3 # bs) = le32 [b0, b1, b2, b3] # le_words bs"
| "le_words _ = []"

section \<open>MD5 (crypto/md5)\<close>

record md5_regs =
  ra :: u32
  rb :: u32
  rc :: u32
  rd :: u32

definition md5_init :: md5_regs where
  "md5_init = \<lparr>ra = 0x67452301, rb = 0xefcdab89, rc = 0x98badcfe, rd = 0x10325476\<rparr>"

definition md5_K :: "u32 list" where
  "md5_K = [
   0xd76aa478, 0xe8c7b756, 0x242070db, 0xc1bdceee, 0xf57c0faf, 0x4787c62a, 0xa8304613, 0xfd469501,
   0x698098d8, 0x8b44f7af, 0xffff5bb1, 0x895cd7be, 0x6b901122, 0xfd987193, 0xa679438e, 0x49b40821,
   0xf61e2562, 0xc040b340, 0x265e5a51, 0xe9b6c7aa, 0xd62f105d, 0x02441453, 0xd8a1e681, 0xe7d3fbc8,
   0x21e1cde6, 0xc33707d6, 0xf4d50d87, 0x455a14ed, 0xa9e3e905, 0xfcefa3f8, 0x676f02d9, 0x8d2a4c8a,
   0xfffa3942, 0x8771f681, 0x6d9d6122, 0xfde5380c, 0xa4beea44, 0x4bdecfa9, 0xf6bb4b60, 0xbebfbc70,
   0x289b7ec6, 0xeaa127fa, 0xd4ef3085, 0x04881d05, 0xd9d4d039, 0xe6db99e5, 0x1fa27cf8, 0xc4ac5665,
   0xf4292244, 0x432aff97, 0xab9423a7, 0xfc93a039, 0x655b59c3, 0x8f0ccc92, 0xffeff47d, 0x85845dd1,
   0x6fa87e4f, 0xfe2ce6e0, 0xa3014314, 0x4e0811a1, 0xf7537e82, 0xbd3af235, 0x2ad7d2bb, 0xeb86d391]"

definition md5_S :: "nat list" where
  "md5_S = [7, 12, 17, 22, 7, 12, 17, 22, 7, 12, 17, 22, 7, 12, 17, 22,
            5,  9, 14, 20, 5,  9, 14, 20, 5,  9, 14, 20, 5,  9, 14, 20,
            4, 11, 16, 23, 4, 11, 16, 23, 4, 11, 16, 23, 4, 11, 16, 23,
            6, 10, 15, 21, 6, 10, 15, 21, 6, 10, 15, 21, 6, 10, 15, 21]"

text \<open>\<open>bits.RotateLeft32(x, s)\<close> for \<open>0 \<le> s \<le> 32\<close>: \<open>x<<s | x>>(32-s)\<close>.\<close>

definition rotl32 :: "nat \<Rightarrow> u32 \<Rightarrow> u32" where
  "rotl32 s x = push_bit s x OR drop_bit (32 - s) x"

text \<open>The four round functions in the forms \<open>md5block.go\<close> writes them.\<close>

definition md5_F :: "u32 \<Rightarrow> u32 \<Rightarrow> u32 \<Rightarrow> u32" where
  "md5_F b c d = ((c XOR d) AND b) XOR d"

definition md5_G :: "u32 \<Rightarrow> u32 \<Rightarrow> u32 \<Rightarrow> u32" where
  "md5_G b c d = ((b XOR c) AND d) XOR c"

definition md5_H :: "u32 \<Rightarrow> u32 \<Rightarrow> u32 \<Rightarrow> u32" where
  "md5_H b c d = b XOR c XOR d"

definition md5_I :: "u32 \<Rightarrow> u32 \<Rightarrow> u32 \<Rightarrow> u32" where
  "md5_I b c d = c XOR (b OR NOT d)"

text \<open>Round \<open>i\<close>: its function and the index of the message word it reads.\<close>

definition md5_fg :: "nat \<Rightarrow> u32 \<Rightarrow> u32 \<Rightarrow> u32 \<Rightarrow> u32 \<times> nat" where
  "md5_fg i b c d =
    (if i < 16 then (md5_F b c d, i)
     else if i < 32 then (md5_G b c d, (5 * i + 1) mod 16)
     else if i < 48 then (md5_H b c d, (3 * i + 5) mod 16)
     else (md5_I b c d, (7 * i) mod 16))"

definition md5_round :: "u32 list \<Rightarrow> md5_regs \<Rightarrow> nat \<Rightarrow> md5_regs" where
  "md5_round m r i =
    (let (f, g) = md5_fg i (rb r) (rc r) (rd r);
         t = f + ra r + md5_K ! i + m ! g
     in \<lparr>ra = rd r, rb = rb r + rotl32 (md5_S ! i) t, rc = rb r, rd = rc r\<rparr>)"

text \<open>One block: 64 rounds from the current state, then the state is added in.\<close>

definition md5_compress :: "md5_regs \<Rightarrow> byte list \<Rightarrow> md5_regs" where
  "md5_compress h blk =
    (let m = le_words blk; r = foldl (md5_round m) h [0..<64]
     in \<lparr>ra = ra h + ra r, rb = rb h + rb r, rc = rc h + rc r, rd = rd h + rd r\<rparr>)"

text \<open>\<open>blockGeneric\<close>: every whole 64-byte block of the input, in order.\<close>

function (domintros) md5_blocks :: "md5_regs \<Rightarrow> byte list \<Rightarrow> md5_regs" where
  "md5_blocks h bs =
    (if length bs < 64 then h else md5_blocks (md5_compress h (take 64 bs)) (drop 64 bs))"
  by pat_completeness auto
termination
  by (relation "measure (\<lambda>(h, bs). length bs)") auto

declare md5_blocks.simps [simp del]

text \<open>
  \<open>d.checkSum\<close>: \<open>0x80\<close>, then \<open>(55 - len) % 64\<close> zero bytes (in \<open>uint64\<close>, so
  the residue of \<open>55 - len\<close> modulo 64), then \<open>len << 3\<close> as a little-endian
  \<open>uint64\<close> (the bit length, wrapping at \<open>2^64\<close>).
\<close>

definition md5_padding_len :: "nat \<Rightarrow> nat" where
  "md5_padding_len n = (119 - n mod 64) mod 64"

definition md5_pad :: "byte list \<Rightarrow> byte list" where
  "md5_pad msg = msg @ [0x80] @ replicate (md5_padding_len (length msg)) 0
                 @ le_bytes 8 (word_of_nat (8 * length msg) :: u64)"

definition md5_Sum :: "byte list \<Rightarrow> byte list" where
  "md5_Sum msg =
    (let h = md5_blocks md5_init (md5_pad msg)
     in le_bytes 4 (ra h) @ le_bytes 4 (rb h) @ le_bytes 4 (rc h) @ le_bytes 4 (rd h))"

text \<open>
  The reference reading of the block loop: the message cut into its whole
  64-byte blocks, in order, the trailing partial block dropped.
\<close>

definition md5_chunks :: "byte list \<Rightarrow> byte list list" where
  "md5_chunks bs = map (\<lambda>i. take 64 (drop (64 * i) bs)) [0..<length bs div 64]"

definition md5_Sum_ref :: "byte list \<Rightarrow> byte list" where
  "md5_Sum_ref msg =
    (let h = foldl md5_compress md5_init (md5_chunks (md5_pad msg))
     in le_bytes 4 (ra h) @ le_bytes 4 (rb h) @ le_bytes 4 (rc h) @ le_bytes 4 (rd h))"

section \<open>Hex encoding (encoding/hex)\<close>

definition hextable :: string where
  "hextable = ''0123456789abcdef''"

definition hex_EncodeToString :: "byte list \<Rightarrow> string" where
  "hex_EncodeToString bs =
    concat (map (\<lambda>v. [hextable ! unat (drop_bit 4 v), hextable ! unat (v AND 0x0f)]) bs)"

text \<open>
  \<open>hex.DecodeString\<close>, the inverse the round trip is stated against: an odd
  length is \<open>ErrLength\<close>; a character outside \<open>0-9a-fA-F\<close> is an
  \<open>InvalidByteError\<close>.
\<close>

datatype hex_error = ErrLength | InvalidByteError char

definition from_hex_char :: "char \<Rightarrow> byte option" where
  "from_hex_char c =
    (let n = of_char c :: nat in
     if 48 \<le> n \<and> n \<le> 57 then Some (word_of_nat (n - 48))
     else if 97 \<le> n \<and> n \<le> 102 then Some (word_of_nat (n - 87))
     else if 65 \<le> n \<and> n \<le> 70 then Some (word_of_nat (n - 55))
     else None)"

fun hex_decode_pairs :: "string \<Rightarrow> hex_error + byte list" where
  "hex_decode_pairs (p # q # cs) =
    (case from_hex_char p of
       None \<Rightarrow> Inl (InvalidByteError p)
     | Some a \<Rightarrow> (case from_hex_char q of
         None \<Rightarrow> Inl (InvalidByteError q)
       | Some b \<Rightarrow> (case hex_decode_pairs cs of
           Inl e \<Rightarrow> Inl e
         | Inr bs \<Rightarrow> Inr ((push_bit 4 a OR b) # bs))))"
| "hex_decode_pairs _ = Inr []"

definition hex_DecodeString :: "string \<Rightarrow> hex_error + byte list" where
  "hex_DecodeString s = (if odd (length s) then Inl ErrLength else hex_decode_pairs s)"

section \<open>EncodeMD5\<close>

definition encode_md5 :: "string \<Rightarrow> string" where
  "encode_md5 s = hex_EncodeToString (md5_Sum (go_bytes s))"

text \<open>What a stored digest looks like: 32 characters of \<open>hextable\<close>.\<close>

definition is_md5_hex :: "string \<Rightarrow> bool" where
  "is_md5_hex s = (length s = 32 \<and> list_all (\<lambda>c. c \<in> set hextable) s)"

section \<open>Lemmas: the round functions and the rotation\<close>

text \<open>Go's forms of the round functions equal RFC 1321's.\<close>

lemma md5_F_rfc: "md5_F b c d = (b AND c) OR (NOT b AND d)"
  by (rule bit_eqI) (auto simp: md5_F_def bit_simps)

lemma md5_G_rfc: "md5_G b c d = (b AND d) OR (c AND NOT d)"
  by (rule bit_eqI) (auto simp: md5_G_def bit_simps)

text \<open>The shift-and-or rotation is the library's rotation for every shift up to 32.\<close>

lemma rotl32_word_rotl:
  assumes "s \<le> 32" shows "rotl32 s x = word_rotl s x"
proof (rule bit_eqI)
  fix n assume "possible_bit TYPE(u32) n"
  then have n: "n < 32" by simp
  show "bit (rotl32 s x) n = bit (word_rotl s x) n"
  proof (cases "s = 32")
    case True
    then show ?thesis using n by (simp add: rotl32_def bit_simps)
  next
    case False
    with assms have s: "s < 32" by simp
    show ?thesis
    proof (cases "s \<le> n")
      case True
      then have "(n + (32 - s)) mod 32 = n - s" using n s by (simp add: mod_if)
      moreover have "\<not> bit x (32 - s + n)"
        using True s bit_imp_le_length [of x "32 - s + n"] by auto
      ultimately show ?thesis using True n s by (auto simp add: rotl32_def bit_simps)
    next
      case False
      then have m: "(n + (32 - s)) mod 32 = n + (32 - s)" using n s by simp
      have l: "bit (rotl32 s x) n = bit x (32 - s + n)"
        using False n by (simp add: rotl32_def bit_simps)
      have r: "bit (word_rotl s x) n = bit x (n + (32 - s))"
        using n s m by (simp add: bit_word_rotl_iff)
      show ?thesis by (simp add: l r add.commute)
    qed
  qed
qed

section \<open>Lemmas: little-endian conversions\<close>

lemma length_le_bytes [simp]: "length (le_bytes n w) = n"
  by (simp add: le_bytes_def)

lemma le_bytes_4:
  "le_bytes 4 w = [ucast w, ucast (drop_bit 8 w), ucast (drop_bit 16 w), ucast (drop_bit 24 w)]"
  by (simp add: le_bytes_def upt_rec)

lemma bit_ucast_byte:
  "bit (ucast (ucast (drop_bit k w) :: byte) :: u32) n = (n < 8 \<and> bit w (k + n))"
  by (auto simp add: bit_simps)

text \<open>\<open>Uint32\<close> inverts \<open>PutUint32\<close>.\<close>

lemma le32_le_bytes: "le32 (le_bytes 4 (w :: u32)) = w"
proof (rule bit_eqI)
  fix n assume "possible_bit TYPE(u32) n"
  then have n: "n < 32" by simp
  have b0: "bit (ucast (ucast w :: byte) :: u32) n = (n < 8 \<and> bit w n)"
    using bit_ucast_byte [of 0 w n] by simp
  have eq: "bit (le32 (le_bytes 4 w)) n =
     ((n < 8 \<and> bit w n) \<or> (8 \<le> n \<and> n - 8 < 8 \<and> bit w (8 + (n - 8)))
      \<or> (16 \<le> n \<and> n - 16 < 8 \<and> bit w (16 + (n - 16)))
      \<or> (24 \<le> n \<and> n - 24 < 8 \<and> bit w (24 + (n - 24))))"
    using n by (simp add: le_bytes_4 le32_def bit_or_iff bit_push_bit_iff bit_ucast_byte b0)
  consider "n < 8" | "8 \<le> n" "n < 16" | "16 \<le> n" "n < 24" | "24 \<le> n" "n < 32"
    using n by linarith
  then show "bit (le32 (le_bytes 4 w)) n = bit w n"
    by cases (auto simp add: eq)
qed

section \<open>Lemmas: padding and the block loop\<close>

lemma md5_pad_length: "length (md5_pad m) = length m + 9 + md5_padding_len (length m)"
  by (simp add: md5_pad_def)

lemma md5_padding_len_mod: "(n + 9 + md5_padding_len n) mod 64 = 0"
proof -
  define r where "r = n mod 64"
  have r: "r < 64" by (simp add: r_def)
  have n: "n = 64 * (n div 64) + r" by (simp add: r_def)
  show ?thesis
  proof (cases "r \<le> 55")
    case True
    then have h: "119 - r = (55 - r) + 64" by simp
    have "(119 - r) mod 64 = 55 - r" unfolding h by simp
    then have "md5_padding_len n = 55 - r"
      by (simp add: md5_padding_len_def r_def [symmetric])
    then have e: "n + 9 + md5_padding_len n = 64 * (n div 64 + 1)" using True n by simp
    show ?thesis unfolding e by simp
  next
    case False
    then have "md5_padding_len n = 119 - r"
      using r by (simp add: md5_padding_len_def r_def [symmetric])
    then have e: "n + 9 + md5_padding_len n = 64 * (n div 64 + 2)" using False n r by simp
    show ?thesis unfolding e by simp
  qed
qed

text \<open>The padded message is whole blocks, at most 72 bytes longer, and starts with the message.\<close>

lemma md5_pad_blocks: "length (md5_pad m) mod 64 = 0"
  by (simp add: md5_pad_length md5_padding_len_mod)

lemma md5_pad_length_bounds:
  "length m + 9 \<le> length (md5_pad m) \<and> length (md5_pad m) \<le> length m + 72"
  by (simp add: md5_pad_length md5_padding_len_def)

lemma md5_pad_prefix: "take (length m) (md5_pad m) = m"
  by (simp add: md5_pad_def)

text \<open>Streaming: the loop over a prefix of whole blocks, then over the rest, is the loop.\<close>

lemma md5_blocks_append:
  "length xs mod 64 = 0 \<Longrightarrow> md5_blocks h (xs @ ys) = md5_blocks (md5_blocks h xs) ys"
proof (induction h xs rule: md5_blocks.induct)
  case (1 h xs)
  show ?case
  proof (cases "length xs < 64")
    case True
    with "1.prems" have "xs = []" by simp
    then show ?thesis by (simp add: md5_blocks.simps [of h "[]"])
  next
    case False
    then have "length (drop 64 xs) mod 64 = 0"
      using "1.prems" by (simp add: le_mod_geq [symmetric])
    with False "1.IH" have IH: "md5_blocks (md5_compress h (take 64 xs)) (drop 64 xs @ ys) =
        md5_blocks (md5_blocks (md5_compress h (take 64 xs)) (drop 64 xs)) ys"
      by simp
    have l: "md5_blocks h (xs @ ys) = md5_blocks (md5_compress h (take 64 xs)) (drop 64 xs @ ys)"
      using False by (simp add: md5_blocks.simps [of h "xs @ ys"])
    have r: "md5_blocks h xs = md5_blocks (md5_compress h (take 64 xs)) (drop 64 xs)"
      using False by (simp add: md5_blocks.simps [of h xs])
    show ?thesis using l r IH by simp
  qed
qed

lemma length_md5_Sum [simp]: "length (md5_Sum m) = 16"
  by (simp add: md5_Sum_def Let_def)

section \<open>Lemmas: hex encoding\<close>

lemma hex_digit_decode:
  "list_all (\<lambda>k. from_hex_char (hextable ! k) = Some (word_of_nat k)) [0..<16]"
  by (simp add: upt_rec hextable_def from_hex_char_def)

lemma from_hex_char_hextable: "k < 16 \<Longrightarrow> from_hex_char (hextable ! k) = Some (word_of_nat k)"
  using hex_digit_decode by (simp add: list_all_iff)

lemma byte_nibbles: "push_bit 4 (drop_bit 4 v) OR (v AND 0x0f) = (v :: byte)"
proof -
  have m: "(0x0f :: byte) = mask 4" by (simp add: mask_eq_exp_minus_1)
  show ?thesis unfolding m
    by (rule bit_eqI) (auto simp add: bit_simps)
qed

lemma nibble_hi_bound: "unat (drop_bit 4 (v :: byte)) < 16"
proof -
  have "unat v < 256" using unsigned_less [of v, where ?'a = nat] by simp
  then show ?thesis by (simp add: drop_bit_eq_div unat_div)
qed

lemma nibble_lo_bound: "unat (v AND 0x0f :: byte) < 16"
proof -
  have "unat (v AND 0x0f) \<le> unat (0x0f :: byte)"
    by (rule word_and_le1 [THEN word_le_nat_alt [THEN iffD1]])
  then show ?thesis by simp
qed

lemma length_hextable [simp]: "length hextable = 16"
  by (simp add: hextable_def)

lemma hex_EncodeToString_Cons:
  "hex_EncodeToString (v # bs) =
     hextable ! unat (drop_bit 4 v) # hextable ! unat (v AND 0x0f) # hex_EncodeToString bs"
  by (simp add: hex_EncodeToString_def)

lemma length_hex_EncodeToString [simp]: "length (hex_EncodeToString bs) = 2 * length bs"
  by (induction bs) (simp_all add: hex_EncodeToString_Cons, simp add: hex_EncodeToString_def)

lemma hex_decode_pairs_EncodeToString: "hex_decode_pairs (hex_EncodeToString bs) = Inr bs"
proof (induction bs)
  case Nil
  then show ?case by (simp add: hex_EncodeToString_def)
next
  case (Cons v bs)
  have hi: "from_hex_char (hextable ! unat (drop_bit 4 v)) = Some (drop_bit 4 v)"
    using from_hex_char_hextable [OF nibble_hi_bound] by simp
  have lo: "from_hex_char (hextable ! unat (v AND 0x0f)) = Some (v AND 0x0f)"
    using from_hex_char_hextable [OF nibble_lo_bound] by simp
  show ?case using Cons.IH by (simp add: hex_EncodeToString_Cons hi lo byte_nibbles)
qed

text \<open>\<open>hex.DecodeString\<close> inverts \<open>hex.EncodeToString\<close>.\<close>

lemma hex_roundtrip: "hex_DecodeString (hex_EncodeToString bs) = Inr bs"
  by (simp add: hex_DecodeString_def hex_decode_pairs_EncodeToString)

lemma set_hex_EncodeToString: "set (hex_EncodeToString bs) \<subseteq> set hextable"
proof -
  have "set [hextable ! unat (drop_bit 4 v), hextable ! unat (v AND 0x0f)] \<subseteq> set hextable"
    for v :: byte
    using nth_mem [of "unat (drop_bit 4 v)" hextable] nth_mem [of "unat (v AND 0x0f)" hextable]
      nibble_hi_bound [of v] nibble_lo_bound [of v] by simp
  then show ?thesis unfolding hex_EncodeToString_def by (rule set_concat_map_subset)
qed

section \<open>Lemmas: the digest\<close>

lemma length_encode_md5 [simp, digest_facts]: "length (encode_md5 s) = 32"
  by (simp add: encode_md5_def)

lemma is_md5_hex_encode_md5 [simp, digest_facts]: "is_md5_hex (encode_md5 s)"
  using set_hex_EncodeToString by (auto simp add: is_md5_hex_def list_all_iff encode_md5_def)

lemma encode_md5_nonempty [simp, digest_facts]: "encode_md5 s \<noteq> []"
  using length_encode_md5 [of s] by (metis list.size(3) zero_neq_numeral)

text \<open>Two digests are equal exactly when the MD5 sums are: the hex layer loses nothing.\<close>

lemma encode_md5_eq_iff:
  "encode_md5 s = encode_md5 t \<longleftrightarrow> md5_Sum (go_bytes s) = md5_Sum (go_bytes t)"
  by (metis encode_md5_def hex_roundtrip Inr_inject)

text \<open>RFC 1321's test suite, evaluated in the kernel.\<close>

lemma md5_vector_empty: "encode_md5 '''' = ''d41d8cd98f00b204e9800998ecf8427e''"
  by code_simp

lemma md5_vector_abc: "encode_md5 ''abc'' = ''900150983cd24fb0d6963f7d28e17f72''"
  by code_simp

section \<open>The block loop against its reference\<close>

lemma md5_chunks_short: "length bs < 64 \<Longrightarrow> md5_chunks bs = []"
  by (simp add: md5_chunks_def)

lemma md5_chunks_step:
  assumes "\<not> length bs < 64"
  shows "md5_chunks bs = take 64 bs # md5_chunks (drop 64 bs)"
proof -
  have k: "length bs div 64 = Suc (length (drop 64 bs) div 64)"
    using assms by (simp add: le_div_geq)
  have "drop (64 * Suc i) bs = drop (64 * i) (drop 64 bs)" for i
    by (simp add: add.commute)
  then show ?thesis
    unfolding md5_chunks_def k upt_conv_Cons [OF zero_less_Suc] map_Suc_upt [symmetric]
    by simp
qed

lemma md5_blocks_fold: "md5_blocks h bs = foldl md5_compress h (md5_chunks bs)"
proof (induction h bs rule: md5_blocks.induct)
  case (1 h bs)
  show ?case
  proof (cases "length bs < 64")
    case True
    then show ?thesis by (simp add: md5_blocks.simps [of h bs] md5_chunks_short)
  next
    case False
    then show ?thesis
      using "1.IH" by (simp add: md5_blocks.simps [of h bs] md5_chunks_step)
  qed
qed

lemma md5_chunks_lengths:
  "list_all (\<lambda>c. length c = 64) (md5_chunks bs) \<and> length (md5_chunks bs) = length bs div 64"
proof -
  have "64 * i + 64 \<le> length bs" if "i < length bs div 64" for i
    using that by (metis add.commute less_eq_div_iff_mult_less_eq
        mult.commute mult_Suc_right zero_less_numeral Suc_leI)
  then show ?thesis
    by (auto simp add: md5_chunks_def list_all_iff)
qed

lemma md5_chunks_concat: "length bs mod 64 = 0 \<Longrightarrow> concat (md5_chunks bs) = bs"
proof (induction "length bs" arbitrary: bs rule: less_induct)
  case less
  show ?case
  proof (cases "length bs < 64")
    case True
    with less.prems show ?thesis by (simp add: md5_chunks_short)
  next
    case False
    have "length (drop 64 bs) mod 64 = 0"
      using False less.prems by (simp add: le_mod_geq [symmetric])
    then have "concat (md5_chunks (drop 64 bs)) = drop 64 bs"
      using False less.hyps [of "drop 64 bs"] by simp
    then show ?thesis
      using False by (simp add: md5_chunks_step)
  qed
qed

text \<open>
  The block loop terminates on every input: the domain of \<open>md5_blocks\<close>,
  which consumes one 64-byte block per call, is everything.
\<close>

lemma md5_blocks_terminates: "md5_blocks_dom (h, bs)"
proof (induction "length bs" arbitrary: h bs rule: less_induct)
  case less
  show ?case
    by (rule md5_blocks.domintros) (simp add: less)
qed

lemma md5_Sum_ref_eq: "md5_Sum msg = md5_Sum_ref msg"
  by (simp add: md5_Sum_def md5_Sum_ref_def md5_blocks_fold)

end
