(* ===== verification/User_Model.thy ===== *)
theory User_Model
  imports Encryption
begin

text \<open>
  The two record shapes and the repository interfaces the services are
  written against. \<open>dto.User\<close> (internal/service/dto, the wire shape; user.go's
  \<open>model.UserDTO\<close> has the same fields) and \<open>entity.User\<close>
  (internal/repository/entity, the persistence shape) are not under src/ and
  are modelled from the spec's data model: identifier, first and last name,
  email, password, creation and update time. Go's zero values are \<open>0\<close> and the
  empty string; \<open>time.Time\<close> is a tick count. The sentinel errors of the
  repository and service contracts are named by package and variable. The
  repository interfaces are records of operations over the repository's
  hidden state \<open>'s\<close>, each returning the Go result and the new state.
\<close>

section \<open>Records\<close>

record dto_user =
  dto_ID :: nat
  dto_FirstName :: string
  dto_LastName :: string
  dto_Email :: string
  dto_Password :: string
  dto_CreatedAt :: nat
  dto_UpdatedAt :: nat

record entity_user =
  ent_ID :: nat
  ent_FirstName :: string
  ent_LastName :: string
  ent_Email :: string
  ent_Password :: string
  ent_CreatedAt :: nat
  ent_UpdatedAt :: nat

section \<open>Sentinel errors of the contracts\<close>

abbreviation repo_ErrRecordNotFound :: go_error where
  "repo_ErrRecordNotFound \<equiv> Sentinel ''repository/contract'' ''ErrRecordNotFound''"

abbreviation repo_ErrDuplicateEntry :: go_error where
  "repo_ErrDuplicateEntry \<equiv> Sentinel ''repository/contract'' ''ErrDuplicateEntry''"

abbreviation svc_ErrRecordNotFound :: go_error where
  "svc_ErrRecordNotFound \<equiv> Sentinel ''service/contract'' ''ErrRecordNotFound''"

abbreviation svc_ErrDuplicateEntry :: go_error where
  "svc_ErrDuplicateEntry \<equiv> Sentinel ''service/contract'' ''ErrDuplicateEntry''"

section \<open>Repository interfaces\<close>

text \<open>\<open>repositoryContract.UserRepository\<close>, the methods the auth service calls.\<close>

record 's auth_user_repository =
  ar_FindBy :: "entity_user \<Rightarrow> 's \<Rightarrow> (entity_user, 's) go_call"
  ar_Store :: "entity_user \<Rightarrow> 's \<Rightarrow> (entity_user, 's) go_call"

text \<open>\<open>mysql.UserRepository\<close>, the methods the source service calls.\<close>

record 's source_user_repository =
  sr_Store :: "dto_user \<Rightarrow> 's \<Rightarrow> (dto_user, 's) go_call"
  sr_Find :: "dto_user \<Rightarrow> 's \<Rightarrow> (dto_user, 's) go_call"
  sr_Destroy :: "dto_user \<Rightarrow> 's \<Rightarrow> 's go_call_err"
  sr_Update :: "dto_user \<Rightarrow> 's \<Rightarrow> 's go_call_err"

end
