(* ===== verification/Repository.thy ===== *)
theory Repository
  imports User_Model
begin

text \<open>
  The MySQL user repository (internal/repository/mysql, not under src/),
  modelled from the spec's contract as a table with GORM's semantics:
  \<^item> the state is the list of rows in insertion order, the next
    auto-increment identifier and a clock for the timestamps;
  \<^item> \<open>FindBy\<close> is \<open>Where(&criteria).First\<close>: the first row on which every
    non-zero field of the criteria agrees, else \<open>ErrRecordNotFound\<close>;
  \<^item> \<open>Store\<close> is \<open>Create\<close>: a row whose email (a unique index) or whose
    non-zero identifier (the primary key) is taken is \<open>ErrDuplicateEntry\<close>;
    otherwise the row gets the next identifier if it had none, its zero
    timestamps are set to the clock, and it is appended;
  \<^item> \<open>Update\<close> is \<open>Updates\<close> on the row with the record's identifier: the
    non-zero fields overwrite, the update time is the clock; an email taken
    by another row is a generic error; no row is not an error;
  \<^item> \<open>Destroy\<close> deletes the row with the record's identifier; a zero
    identifier is GORM's missing-WHERE error.
  The table invariant (distinct identifiers, distinct emails, identifiers
  positive and below the counter) holds initially and every operation keeps
  it. The abstraction of a table to a map from email to row gives the
  contract the services are proved against.
\<close>

record user_table =
  tbl_rows :: "entity_user list"
  tbl_next_id :: nat
  tbl_clock :: nat

definition empty_table :: user_table where
  "empty_table = \<lparr>tbl_rows = [], tbl_next_id = 1, tbl_clock = 1\<rparr>"

section \<open>GORM's zero-value conventions\<close>

text \<open>A criteria field constrains a query only when it is not the zero value.\<close>

definition cond_str :: "string \<Rightarrow> string \<Rightarrow> bool" where
  "cond_str c v = (c = [] \<or> c = v)"

definition cond_nat :: "nat \<Rightarrow> nat \<Rightarrow> bool" where
  "cond_nat c v = (c = 0 \<or> c = v)"

definition row_matches :: "entity_user \<Rightarrow> entity_user \<Rightarrow> bool" where
  "row_matches c r =
    (cond_nat (ent_ID c) (ent_ID r) \<and> cond_str (ent_FirstName c) (ent_FirstName r)
     \<and> cond_str (ent_LastName c) (ent_LastName r) \<and> cond_str (ent_Email c) (ent_Email r)
     \<and> cond_str (ent_Password c) (ent_Password r)
     \<and> cond_nat (ent_CreatedAt c) (ent_CreatedAt r) \<and> cond_nat (ent_UpdatedAt c) (ent_UpdatedAt r))"

text \<open>\<open>Updates\<close> writes a field only when the new value is not the zero value.\<close>

definition pick_str :: "string \<Rightarrow> string \<Rightarrow> string" where
  "pick_str new old = (if new = [] then old else new)"

definition pick_nat :: "nat \<Rightarrow> nat \<Rightarrow> nat" where
  "pick_nat new old = (if new = 0 then old else new)"

definition merge_row :: "nat \<Rightarrow> entity_user \<Rightarrow> entity_user \<Rightarrow> entity_user" where
  "merge_row now u r =
    r\<lparr>ent_FirstName := pick_str (ent_FirstName u) (ent_FirstName r),
      ent_LastName := pick_str (ent_LastName u) (ent_LastName r),
      ent_Email := pick_str (ent_Email u) (ent_Email r),
      ent_Password := pick_str (ent_Password u) (ent_Password r),
      ent_CreatedAt := pick_nat (ent_CreatedAt u) (ent_CreatedAt r),
      ent_UpdatedAt := now\<rparr>"

section \<open>Operations\<close>

definition table_FindBy :: "entity_user \<Rightarrow> user_table \<Rightarrow> (entity_user, user_table) go_call" where
  "table_FindBy c db =
    (case find (row_matches c) (tbl_rows db) of
       None \<Rightarrow> (Inl repo_ErrRecordNotFound, db)
     | Some r \<Rightarrow> (Inr r, db))"

definition store_conflict :: "entity_user \<Rightarrow> user_table \<Rightarrow> bool" where
  "store_conflict u db =
    list_ex (\<lambda>r. ent_Email r = ent_Email u \<or> (ent_ID u \<noteq> 0 \<and> ent_ID r = ent_ID u)) (tbl_rows db)"

definition stored_row :: "entity_user \<Rightarrow> user_table \<Rightarrow> entity_user" where
  "stored_row u db =
    u\<lparr>ent_ID := pick_nat (ent_ID u) (tbl_next_id db),
      ent_CreatedAt := pick_nat (ent_CreatedAt u) (tbl_clock db),
      ent_UpdatedAt := pick_nat (ent_UpdatedAt u) (tbl_clock db)\<rparr>"

definition table_Store :: "entity_user \<Rightarrow> user_table \<Rightarrow> (entity_user, user_table) go_call" where
  "table_Store u db =
    (if store_conflict u db then (Inl repo_ErrDuplicateEntry, db)
     else let r = stored_row u db in
       (Inr r, db\<lparr>tbl_rows := tbl_rows db @ [r],
                  tbl_next_id := max (tbl_next_id db) (Suc (ent_ID r)),
                  tbl_clock := Suc (tbl_clock db)\<rparr>))"

definition update_conflict :: "entity_user \<Rightarrow> user_table \<Rightarrow> bool" where
  "update_conflict u db =
    (ent_Email u \<noteq> [] \<and> list_ex (\<lambda>r. ent_ID r \<noteq> ent_ID u \<and> ent_Email r = ent_Email u) (tbl_rows db))"

definition table_Update :: "entity_user \<Rightarrow> user_table \<Rightarrow> user_table go_call_err" where
  "table_Update u db =
    (if update_conflict u db then (Some (Opaque ''Error 1062: Duplicate entry''), db)
     else (None, db\<lparr>tbl_rows := map (\<lambda>r. if ent_ID r = ent_ID u then merge_row (tbl_clock db) u r else r)
                                    (tbl_rows db),
                   tbl_clock := Suc (tbl_clock db)\<rparr>))"

definition table_Destroy :: "entity_user \<Rightarrow> user_table \<Rightarrow> user_table go_call_err" where
  "table_Destroy u db =
    (if ent_ID u = 0 then (Some (Opaque ''WHERE conditions required''), db)
     else (None, db\<lparr>tbl_rows := filter (\<lambda>r. ent_ID r \<noteq> ent_ID u) (tbl_rows db)\<rparr>))"

section \<open>The table behind the two repository interfaces\<close>

definition table_auth_repo :: "user_table auth_user_repository" where
  "table_auth_repo = \<lparr>ar_FindBy = table_FindBy, ar_Store = table_Store\<rparr>"

text \<open>user.go's repository keeps \<open>model.UserDTO\<close> rows: a field-for-field copy.\<close>

definition row_of_dto :: "dto_user \<Rightarrow> entity_user" where
  "row_of_dto u =
    \<lparr>ent_ID = dto_ID u, ent_FirstName = dto_FirstName u, ent_LastName = dto_LastName u,
     ent_Email = dto_Email u, ent_Password = dto_Password u,
     ent_CreatedAt = dto_CreatedAt u, ent_UpdatedAt = dto_UpdatedAt u\<rparr>"

definition dto_of_row :: "entity_user \<Rightarrow> dto_user" where
  "dto_of_row r =
    \<lparr>dto_ID = ent_ID r, dto_FirstName = ent_FirstName r, dto_LastName = ent_LastName r,
     dto_Email = ent_Email r, dto_Password = ent_Password r,
     dto_CreatedAt = ent_CreatedAt r, dto_UpdatedAt = ent_UpdatedAt r\<rparr>"

definition table_source_repo :: "user_table source_user_repository" where
  "table_source_repo =
    \<lparr>sr_Store = (\<lambda>u db. apfst (map_sum id dto_of_row) (table_Store (row_of_dto u) db)),
     sr_Find = (\<lambda>u db. apfst (map_sum id dto_of_row) (table_FindBy (row_of_dto u) db)),
     sr_Destroy = (\<lambda>u db. table_Destroy (row_of_dto u) db),
     sr_Update = (\<lambda>u db. table_Update (row_of_dto u) db)\<rparr>"

section \<open>Invariant and abstraction\<close>

definition table_inv :: "user_table \<Rightarrow> bool" where
  "table_inv db =
    (0 < tbl_next_id db \<and> distinct (map ent_ID (tbl_rows db)) \<and> distinct (map ent_Email (tbl_rows db))
     \<and> list_all (\<lambda>r. 0 < ent_ID r \<and> ent_ID r < tbl_next_id db) (tbl_rows db))"

text \<open>
  A lookup by email and password, as the auth service's \<open>FindBy\<close> issues it
  for a login request: only the email and the password are set.
\<close>

definition email_password_criteria :: "entity_user \<Rightarrow> bool" where
  "email_password_criteria c =
    (ent_ID c = 0 \<and> ent_FirstName c = [] \<and> ent_LastName c = [] \<and> ent_Email c \<noteq> []
     \<and> ent_CreatedAt c = 0 \<and> ent_UpdatedAt c = 0)"

text \<open>The table as the user store the contract speaks of: email to row.\<close>

definition users_by_email :: "user_table \<Rightarrow> string \<rightharpoonup> entity_user" where
  "users_by_email db = map_of (map (\<lambda>r. (ent_Email r, r)) (tbl_rows db))"

section \<open>Lemmas: the operations\<close>

lemma table_repo_selectors [simp, repo_simps]:
  "ar_FindBy table_auth_repo = table_FindBy"
  "ar_Store table_auth_repo = table_Store"
  "sr_Store table_source_repo u db = apfst (map_sum id dto_of_row) (table_Store (row_of_dto u) db)"
  "sr_Find table_source_repo u db = apfst (map_sum id dto_of_row) (table_FindBy (row_of_dto u) db)"
  "sr_Destroy table_source_repo u db = table_Destroy (row_of_dto u) db"
  "sr_Update table_source_repo u db = table_Update (row_of_dto u) db"
  by (simp_all add: table_auth_repo_def table_source_repo_def)

lemma row_of_dto_fields [simp, repo_simps]:
  "ent_ID (row_of_dto u) = dto_ID u"
  "ent_Email (row_of_dto u) = dto_Email u"
  "ent_Password (row_of_dto u) = dto_Password u"
  by (simp_all add: row_of_dto_def)

lemma dto_row_roundtrip [simp]: "dto_of_row (row_of_dto u) = u" "row_of_dto (dto_of_row r) = r"
  by (simp_all add: dto_of_row_def row_of_dto_def)

lemma stored_row_fields [simp, repo_simps]:
  "ent_Email (stored_row u db) = ent_Email u"
  "ent_Password (stored_row u db) = ent_Password u"
  "ent_FirstName (stored_row u db) = ent_FirstName u"
  "ent_LastName (stored_row u db) = ent_LastName u"
  "ent_ID (stored_row u db) = pick_nat (ent_ID u) (tbl_next_id db)"
  by (simp_all add: stored_row_def)

lemma merge_row_fields [simp, repo_simps]:
  "ent_ID (merge_row t u r) = ent_ID r"
  "ent_Email (merge_row t u r) = pick_str (ent_Email u) (ent_Email r)"
  "ent_Password (merge_row t u r) = pick_str (ent_Password u) (ent_Password r)"
  "ent_UpdatedAt (merge_row t u r) = t"
  by (simp_all add: merge_row_def)

lemma table_FindBy_state [simp, repo_simps]: "snd (table_FindBy c db) = db"
  by (simp add: table_FindBy_def split: option.split)

lemma table_FindBy_Inr:
  "table_FindBy c db = (Inr r, db') \<Longrightarrow> db' = db \<and> r \<in> set (tbl_rows db) \<and> row_matches c r"
  by (auto simp add: table_FindBy_def find_Some_iff split: option.splits)

lemma table_FindBy_Inl:
  "table_FindBy c db = (Inl e, db') \<Longrightarrow>
     db' = db \<and> e = repo_ErrRecordNotFound \<and> \<not> list_ex (row_matches c) (tbl_rows db)"
  by (auto simp add: table_FindBy_def find_None_iff list_ex_iff split: option.splits)

lemma table_Store_conflict [repo_simps]:
  "store_conflict u db \<Longrightarrow> table_Store u db = (Inl repo_ErrDuplicateEntry, db)"
  by (simp add: table_Store_def)

lemma table_Store_ok [repo_simps]:
  "\<not> store_conflict u db \<Longrightarrow>
   table_Store u db = (Inr (stored_row u db),
     db\<lparr>tbl_rows := tbl_rows db @ [stored_row u db],
        tbl_next_id := max (tbl_next_id db) (Suc (ent_ID (stored_row u db))),
        tbl_clock := Suc (tbl_clock db)\<rparr>)"
  by (simp add: table_Store_def Let_def)

lemma table_Update_ok [repo_simps]:
  "\<not> update_conflict u db \<Longrightarrow>
   table_Update u db = (None, db\<lparr>tbl_rows := map (\<lambda>r. if ent_ID r = ent_ID u then merge_row (tbl_clock db) u r else r)
                                    (tbl_rows db), tbl_clock := Suc (tbl_clock db)\<rparr>)"
  by (simp add: table_Update_def)

section \<open>Lemmas: the invariant\<close>

lemma table_inv_empty: "table_inv empty_table"
  by (simp add: table_inv_def empty_table_def)

lemma table_Store_inv:
  assumes inv: "table_inv db" shows "table_inv (snd (table_Store u db))"
proof (cases "store_conflict u db")
  case True
  then show ?thesis using inv by (simp add: table_Store_conflict)
next
  case False
  let ?r = "stored_row u db"
  have email: "ent_Email ?r \<notin> set (map ent_Email (tbl_rows db))"
    using False by (auto simp add: store_conflict_def list_ex_iff)
  have id: "ent_ID ?r \<notin> set (map ent_ID (tbl_rows db))"
    using False inv
    by (auto simp add: store_conflict_def list_ex_iff table_inv_def list_all_iff pick_nat_def)
  have pos: "0 < ent_ID ?r"
    using inv by (simp add: table_inv_def pick_nat_def)
  show ?thesis
    using inv False email id pos
    by (auto simp add: table_Store_ok table_inv_def list_all_iff)
qed

lemma table_Update_inv:
  assumes inv: "table_inv db" shows "table_inv (snd (table_Update u db))"
proof (cases "update_conflict u db")
  case True
  then show ?thesis using inv by (simp add: table_Update_def)
next
  case False
  let ?g = "\<lambda>r. if ent_ID r = ent_ID u then merge_row (tbl_clock db) u r else r"
  let ?rs = "tbl_rows db"
  have ids: "map ent_ID (map ?g ?rs) = map ent_ID ?rs"
    by (rule map_update_where_same_key) simp
  have dids: "distinct (map ent_ID ?rs)" and dem: "distinct (map ent_Email ?rs)"
    using inv by (simp_all add: table_inv_def)
  have inj: "inj_on (ent_Email \<circ> ?g) (set ?rs)"
  proof (rule inj_onI)
    fix x y
    assume x: "x \<in> set ?rs" and y: "y \<in> set ?rs"
      and eq: "(ent_Email \<circ> ?g) x = (ent_Email \<circ> ?g) y"
    have idinj: "ent_ID x = ent_ID y \<Longrightarrow> x = y"
      using dids x y by (metis distinct_map inj_onD)
    have eminj: "ent_Email x = ent_Email y \<Longrightarrow> x = y"
      using dem x y by (metis distinct_map inj_onD)
    have other: "z \<in> set ?rs \<Longrightarrow> ent_ID z \<noteq> ent_ID u \<Longrightarrow> ent_Email u \<noteq> [] \<Longrightarrow>
        ent_Email z \<noteq> ent_Email u" for z
      using False by (auto simp add: update_conflict_def list_ex_iff)
    show "x = y"
      using eq idinj eminj other [OF x] other [OF y]
      by (cases "ent_ID x = ent_ID u"; cases "ent_ID y = ent_ID u")
         (auto simp add: pick_str_def split: if_splits)
  qed
  have em: "distinct (map ent_Email (map ?g ?rs))"
    using dem inj by (simp add: distinct_map)
  have id: "distinct (map ent_ID (map ?g ?rs))"
    using dids by (simp only: ids)
  have bnd: "list_all (\<lambda>r. 0 < ent_ID r \<and> ent_ID r < tbl_next_id db) (map ?g ?rs)"
    using inv by (auto simp add: table_inv_def list_all_iff)
  show ?thesis
    using inv em id bnd by (simp add: table_Update_ok [OF False] table_inv_def)
qed

lemma table_Destroy_inv:
  assumes inv: "table_inv db" shows "table_inv (snd (table_Destroy u db))"
  using inv by (auto simp add: table_Destroy_def table_inv_def list_all_iff distinct_map_filter_sub)

lemmas table_ops_inv = table_Store_inv table_Update_inv table_Destroy_inv

section \<open>Lemmas: the abstraction\<close>

lemma row_matches_email_password:
  "email_password_criteria c \<Longrightarrow>
   row_matches c = (\<lambda>r. ent_Email r = ent_Email c \<and> cond_str (ent_Password c) (ent_Password r))"
  by (auto simp add: email_password_criteria_def row_matches_def cond_str_def cond_nat_def fun_eq_iff)

text \<open>On a table that keeps its invariant, a lookup by email and password is a lookup in the map.\<close>

lemma table_FindBy_by_email:
  assumes inv: "table_inv db" and c: "email_password_criteria c"
  shows "table_FindBy c db =
    (case users_by_email db (ent_Email c) of
       None \<Rightarrow> (Inl repo_ErrRecordNotFound, db)
     | Some r \<Rightarrow> if cond_str (ent_Password c) (ent_Password r) then (Inr r, db)
                 else (Inl repo_ErrRecordNotFound, db))"
proof -
  have "find (row_matches c) (tbl_rows db) = (case users_by_email db (ent_Email c) of None \<Rightarrow> None
      | Some r \<Rightarrow> if cond_str (ent_Password c) (ent_Password r) then Some r else None)"
    using inv
    by (simp add: row_matches_email_password [OF c] find_unique_key table_inv_def users_by_email_def)
  then show ?thesis
    by (simp add: table_FindBy_def split: option.split)
qed

text \<open>A successful store adds exactly the stored row under its email.\<close>

lemma users_by_email_Store:
  assumes nc: "\<not> store_conflict u db"
  shows "users_by_email (snd (table_Store u db)) = (users_by_email db)(ent_Email u \<mapsto> stored_row u db)"
proof -
  have "ent_Email u \<notin> dom (users_by_email db)"
    using nc by (auto simp add: store_conflict_def list_ex_iff users_by_email_def dom_map_of_conv_image_fst)
  then show ?thesis
    using nc
    by (auto simp add: table_Store_ok users_by_email_def map_add_def fun_eq_iff split: option.split)
qed

text \<open>\<open>Store\<close> adds at most the stored row.\<close>

lemma table_Store_rows: "set (tbl_rows (snd (table_Store u db))) \<subseteq> insert (stored_row u db) (set (tbl_rows db))"
  by (auto simp add: table_Store_def Let_def)

text \<open>
  A property of the stored passwords survives each write: \<open>Store\<close> when the
  new row has it, \<open>Update\<close> when the new password has it or is empty (and is
  then not written), \<open>Destroy\<close> always.
\<close>

lemma table_Store_passwords:
  "P (ent_Password u) \<Longrightarrow> list_all (\<lambda>r. P (ent_Password r)) (tbl_rows db) \<Longrightarrow>
   list_all (\<lambda>r. P (ent_Password r)) (tbl_rows (snd (table_Store u db)))"
  using table_Store_rows [of u db] by (auto simp add: list_all_iff)

lemma table_Update_passwords:
  "(ent_Password u \<noteq> [] \<Longrightarrow> P (ent_Password u)) \<Longrightarrow> list_all (\<lambda>r. P (ent_Password r)) (tbl_rows db) \<Longrightarrow>
   list_all (\<lambda>r. P (ent_Password r)) (tbl_rows (snd (table_Update u db)))"
  by (auto simp add: table_Update_def list_all_iff pick_str_def)

lemma table_Destroy_passwords:
  "list_all (\<lambda>r. P (ent_Password r)) (tbl_rows db) \<Longrightarrow>
   list_all (\<lambda>r. P (ent_Password r)) (tbl_rows (snd (table_Destroy u db)))"
  by (auto simp add: table_Destroy_def list_all_iff)

lemmas table_ops_passwords = table_Store_passwords table_Update_passwords table_Destroy_passwords

end
