(* ===== verification/Auth_Service.thy ===== *)
theory Auth_Service
  imports Repository
begin

text \<open>
  src/internal/service/auth.go: the auth service. \<open>AuthService\<close> holds the
  repository; \<open>FindBy\<close> and \<open>Store\<close> convert the wire record to an entity
  (hashing the password with \<open>EncodeMD5\<close>, in \<open>singleUserDTOToEntity\<close>), call
  the repository, translate its \<open>ErrRecordNotFound\<close> / \<open>ErrDuplicateEntry\<close>
  into the service's sentinels, wrap any other error with the failing
  operation, and convert a result back. The operations take the
  repository's state and return its new state. Results: the conversions
  round-trip but for the digest; the entity reaching the repository always
  carries a 32-character digest; the error translation for any repository;
  on the table repository, FindBy is a login check (email and password
  digest) and Store adds the user under its email unless the email is taken,
  which refines the abstract user store.
\<close>

section \<open>Conversions\<close>

definition singleUserDTOToEntity :: "dto_user \<Rightarrow> entity_user" where
  "singleUserDTOToEntity uDTO =
    \<lparr>ent_ID = dto_ID uDTO, ent_FirstName = dto_FirstName uDTO, ent_LastName = dto_LastName uDTO,
     ent_Email = dto_Email uDTO, ent_Password = encode_md5 (dto_Password uDTO),
     ent_CreatedAt = dto_CreatedAt uDTO, ent_UpdatedAt = dto_UpdatedAt uDTO\<rparr>"

definition singleUserEntityToDTO :: "entity_user \<Rightarrow> dto_user" where
  "singleUserEntityToDTO uEntity =
    \<lparr>dto_ID = ent_ID uEntity, dto_FirstName = ent_FirstName uEntity,
     dto_LastName = ent_LastName uEntity, dto_Email = ent_Email uEntity,
     dto_Password = ent_Password uEntity,
     dto_CreatedAt = ent_CreatedAt uEntity, dto_UpdatedAt = ent_UpdatedAt uEntity\<rparr>"

section \<open>The service\<close>

record 's AuthService =
  auth_uRepo :: "'s auth_user_repository"

definition NewAuthService :: "'s auth_user_repository \<Rightarrow> 's AuthService" where
  "NewAuthService uRepo = \<lparr>auth_uRepo = uRepo\<rparr>"

definition auth_FindBy :: "'s AuthService \<Rightarrow> dto_user \<Rightarrow> 's \<Rightarrow> (dto_user, 's) go_call" where
  "auth_FindBy s uDTO st =
    (let uEntity = singleUserDTOToEntity uDTO;
         (res, st') = ar_FindBy (auth_uRepo s) uEntity st
     in (case res of
           Inl err \<Rightarrow>
             if errors_is err repo_ErrRecordNotFound then Inl svc_ErrRecordNotFound
             else Inl (errors_Wrap err ''error on calling findby on user repository'')
         | Inr uEntity' \<Rightarrow> Inr (singleUserEntityToDTO uEntity'), st'))"

definition auth_Store :: "'s AuthService \<Rightarrow> dto_user \<Rightarrow> 's \<Rightarrow> (dto_user, 's) go_call" where
  "auth_Store s uDTO st =
    (let uEntity = singleUserDTOToEntity uDTO;
         (res, st') = ar_Store (auth_uRepo s) uEntity st
     in (case res of
           Inl err \<Rightarrow>
             if errors_is err repo_ErrDuplicateEntry then Inl svc_ErrDuplicateEntry
             else Inl (errors_Wrap err ''error on calling store on user repository'')
         | Inr uEntity' \<Rightarrow> Inr (singleUserEntityToDTO uEntity'), st'))"

section \<open>The contract: a user store keyed by email\<close>

text \<open>
  What logging in against a user store promises: the user under the email,
  when the stored digest is the digest of the password given.
\<close>

definition login_spec :: "(string \<rightharpoonup> entity_user) \<Rightarrow> string \<Rightarrow> string \<Rightarrow> entity_user option" where
  "login_spec users email pw =
    (case users email of
       None \<Rightarrow> None
     | Some r \<Rightarrow> if ent_Password r = encode_md5 pw then Some r else None)"

text \<open>What registering promises: the user is added under its email unless the email is taken.\<close>

definition register_spec ::
  "(string \<rightharpoonup> entity_user) \<Rightarrow> entity_user \<Rightarrow> (string \<rightharpoonup> entity_user) option" where
  "register_spec users r = (if ent_Email r \<in> dom users then None else Some (users(ent_Email r \<mapsto> r)))"

text \<open>A login request: the handler fills in the email and the password only.\<close>

definition login_request :: "dto_user \<Rightarrow> bool" where
  "login_request u =
    (dto_ID u = 0 \<and> dto_FirstName u = [] \<and> dto_LastName u = [] \<and> dto_Email u \<noteq> []
     \<and> dto_CreatedAt u = 0 \<and> dto_UpdatedAt u = 0)"

section \<open>Scenario data\<close>

text \<open>The user of the spec's end-to-end scenario, as registration and as login requests.\<close>

abbreviation ana_request :: dto_user where
  "ana_request \<equiv> \<lparr>dto_ID = 0, dto_FirstName = ''Ana'', dto_LastName = ''Lee'',
     dto_Email = ''ana@example.com'', dto_Password = ''hunter2'', dto_CreatedAt = 0, dto_UpdatedAt = 0\<rparr>"

abbreviation ana_login :: dto_user where
  "ana_login \<equiv> \<lparr>dto_ID = 0, dto_FirstName = [], dto_LastName = [],
     dto_Email = ''ana@example.com'', dto_Password = ''hunter2'', dto_CreatedAt = 0, dto_UpdatedAt = 0\<rparr>"

abbreviation auth_on_table :: "user_table AuthService" where
  "auth_on_table \<equiv> NewAuthService table_auth_repo"

abbreviation ana_table :: user_table where
  "ana_table \<equiv> snd (table_Store (singleUserDTOToEntity ana_request) empty_table)"

abbreviation ana_row :: entity_user where
  "ana_row \<equiv> stored_row (singleUserDTOToEntity ana_request) empty_table"

abbreviation failing_repo :: "go_error \<Rightarrow> unit auth_user_repository" where
  "failing_repo e \<equiv> \<lparr>ar_FindBy = (\<lambda>_ st. (Inl e, st)), ar_Store = (\<lambda>_ st. (Inl e, st))\<rparr>"

section \<open>Lemmas: conversions and branches\<close>

lemma conversion_fields [simp]:
  "ent_ID (singleUserDTOToEntity u) = dto_ID u"
  "ent_Email (singleUserDTOToEntity u) = dto_Email u"
  "ent_Password (singleUserDTOToEntity u) = encode_md5 (dto_Password u)"
  "dto_ID (singleUserEntityToDTO e) = ent_ID e"
  "dto_Email (singleUserEntityToDTO e) = ent_Email e"
  "dto_Password (singleUserEntityToDTO e) = ent_Password e"
  by (simp_all add: singleUserDTOToEntity_def singleUserEntityToDTO_def)

lemma auth_service_selector [simp]: "auth_uRepo (NewAuthService r) = r"
  by (simp add: NewAuthService_def)

lemma auth_FindBy_Inl:
  "ar_FindBy (auth_uRepo s) (singleUserDTOToEntity u) st = (Inl e, st') \<Longrightarrow>
   auth_FindBy s u st = (Inl (if errors_is e repo_ErrRecordNotFound then svc_ErrRecordNotFound
                             else errors_Wrap e ''error on calling findby on user repository''), st')"
  by (simp add: auth_FindBy_def)

lemma auth_Store_Inl:
  "ar_Store (auth_uRepo s) (singleUserDTOToEntity u) st = (Inl e, st') \<Longrightarrow>
   auth_Store s u st = (Inl (if errors_is e repo_ErrDuplicateEntry then svc_ErrDuplicateEntry
                            else errors_Wrap e ''error on calling store on user repository''), st')"
  by (simp add: auth_Store_def)

section \<open>Lemmas: the auth service on the table\<close>

lemma store_conflict_by_email:
  "ent_ID u = 0 \<Longrightarrow> store_conflict u db = (ent_Email u \<in> dom (users_by_email db))"
  by (auto simp add: store_conflict_def list_ex_iff users_by_email_def dom_map_of_conv_image_fst
      image_image image_iff) (metis)

lemma auth_Store_table_conflict:
  "store_conflict (singleUserDTOToEntity u) db \<Longrightarrow>
   auth_Store (NewAuthService table_auth_repo) u db = (Inl svc_ErrDuplicateEntry, db)"
  by (simp add: auth_Store_def table_Store_conflict)

lemma auth_Store_table_ok:
  "\<not> store_conflict (singleUserDTOToEntity u) db \<Longrightarrow>
   auth_Store (NewAuthService table_auth_repo) u db =
     (Inr (singleUserEntityToDTO (stored_row (singleUserDTOToEntity u) db)),
      snd (table_Store (singleUserDTOToEntity u) db))"
  by (simp add: auth_Store_def table_Store_ok)

lemma login_table_FindBy:
  assumes inv: "table_inv db" and req: "login_request u"
  shows "table_FindBy (singleUserDTOToEntity u) db =
    (case login_spec (users_by_email db) (dto_Email u) (dto_Password u) of
       None \<Rightarrow> (Inl repo_ErrRecordNotFound, db) | Some r \<Rightarrow> (Inr r, db))"
proof -
  have c: "email_password_criteria (singleUserDTOToEntity u)"
    using req by (simp add: login_request_def email_password_criteria_def singleUserDTOToEntity_def)
  have "cond_str (encode_md5 p) v = (v = encode_md5 p)" for p v
    by (auto simp add: cond_str_def)
  then show ?thesis
    using table_FindBy_by_email [OF inv c]
    by (simp add: login_spec_def split: option.split)
qed

lemma login_spec_update_same:
  "ent_Password r = encode_md5 pw \<Longrightarrow> login_spec (users(e \<mapsto> r)) e pw = Some r"
  by (simp add: login_spec_def)

text \<open>On the table, \<open>Store\<close> leaves the table the repository leaves; \<open>FindBy\<close> reads only.\<close>

lemma auth_Store_table_state:
  "snd (auth_Store (NewAuthService table_auth_repo) u db) = snd (table_Store (singleUserDTOToEntity u) db)"
  by (cases "store_conflict (singleUserDTOToEntity u) db")
    (simp_all add: auth_Store_table_conflict auth_Store_table_ok table_Store_conflict)

lemma auth_FindBy_table_state: "snd (auth_FindBy (NewAuthService table_auth_repo) u db) = db"
  by (simp add: auth_FindBy_def table_FindBy_def split: option.split)

text \<open>After a successful store, a login with the same email and password finds the stored row.\<close>

lemma auth_FindBy_after_Store:
  assumes inv: "table_inv db" and nc: "\<not> store_conflict (singleUserDTOToEntity u) db"
    and req: "login_request v" and email: "dto_Email v = dto_Email u"
    and pw: "dto_Password v = dto_Password u"
  shows "auth_FindBy (NewAuthService table_auth_repo) v (snd (table_Store (singleUserDTOToEntity u) db)) =
    (Inr (singleUserEntityToDTO (stored_row (singleUserDTOToEntity u) db)),
     snd (table_Store (singleUserDTOToEntity u) db))"
proof -
  let ?r = "stored_row (singleUserDTOToEntity u) db"
  let ?db' = "snd (table_Store (singleUserDTOToEntity u) db)"
  have inv': "table_inv ?db'"
    using table_Store_inv [OF inv] by simp
  have users: "users_by_email ?db' = (users_by_email db)(dto_Email u \<mapsto> ?r)"
    using users_by_email_Store [OF nc] by simp
  have "login_spec (users_by_email ?db') (dto_Email v) (dto_Password v) = Some ?r"
    using users email pw by (simp add: login_spec_update_same)
  then show ?thesis
    using login_table_FindBy [OF inv' req] by (simp add: auth_FindBy_def)
qed

section \<open>Lemmas: the scenario\<close>

lemma ana_no_conflict: "\<not> store_conflict (singleUserDTOToEntity ana_request) empty_table"
  by (simp add: store_conflict_def empty_table_def)

lemma ana_table_inv: "table_inv (snd (table_Store (singleUserDTOToEntity ana_request) empty_table))"
  using table_Store_inv [OF table_inv_empty] by simp

lemma ana_table_rows: "tbl_rows ana_table = [ana_row]"
  unfolding table_Store_ok [OF ana_no_conflict] by (simp add: empty_table_def)

lemma ana_login_matches: "row_matches (singleUserDTOToEntity ana_login) ana_row"
  by (simp add: row_matches_def cond_str_def cond_nat_def stored_row_def singleUserDTOToEntity_def)

section \<open>Properties\<close>

text \<open>
  C1. Registering on the table repository refines the abstract user store:
  a new user (no identifier) whose email is taken gets the service's
  \<open>ErrDuplicateEntry\<close> and leaves the table as it was; otherwise the response
  is the stored row (its password the digest of the one given), the table's
  users are the old ones plus this row under its email, and the table
  invariant still holds.
\<close>

theorem auth_Store_refines_register:
  assumes inv: "table_inv db" and new: "dto_ID u = 0"
    and run: "auth_Store (NewAuthService table_auth_repo) u db = (res, db')"
  shows "(case register_spec (users_by_email db) (stored_row (singleUserDTOToEntity u) db) of
            None \<Rightarrow> res = Inl svc_ErrDuplicateEntry \<and> db' = db
          | Some users' \<Rightarrow> res = Inr (singleUserEntityToDTO (stored_row (singleUserDTOToEntity u) db))
                          \<and> users_by_email db' = users' \<and> table_inv db')"
proof (cases "store_conflict (singleUserDTOToEntity u) db")
  case True
  then have "dto_Email u \<in> dom (users_by_email db)"
    using new by (simp add: store_conflict_by_email)
  then show ?thesis
    using run True by (simp add: register_spec_def auth_Store_table_conflict)
next
  case False
  then have dom: "dto_Email u \<notin> dom (users_by_email db)"
    using new by (simp add: store_conflict_by_email)
  have "users_by_email db' = (users_by_email db)(dto_Email u \<mapsto> stored_row (singleUserDTOToEntity u) db)"
    using run users_by_email_Store [OF False] by (simp add: auth_Store_table_ok [OF False])
  moreover have "table_inv db'"
    using run table_Store_inv [OF inv, of "singleUserDTOToEntity u"]
    by (simp add: auth_Store_table_ok [OF False])
  ultimately show ?thesis
    using run dom False by (simp add: register_spec_def auth_Store_table_ok)
qed

theorem auth_Store_refines_register_witness:
  "table_inv empty_table \<and> dto_ID ana_request = 0 \<and>
   fst (auth_Store auth_on_table ana_request empty_table) =
     Inr (singleUserEntityToDTO (stored_row (singleUserDTOToEntity ana_request) empty_table)) \<and>
   users_by_email (snd (auth_Store auth_on_table ana_request empty_table)) =
     [''ana@example.com'' \<mapsto> stored_row (singleUserDTOToEntity ana_request) empty_table]"
proof -
  have h1: "table_inv empty_table" by (rule table_inv_empty)
  have h2: "dto_ID ana_request = 0" by simp
  show ?thesis
    using auth_Store_refines_register [OF h1 h2 surjective_pairing] h1
    by (simp add: register_spec_def users_by_email_def empty_table_def)
qed

text \<open>
  C2. Logging in on the table repository refines the abstract contract: for
  a request that sets only the email and the password, \<open>FindBy\<close> returns
  the user stored under the email exactly when its stored password is the
  digest of the password given, and the service's \<open>ErrRecordNotFound\<close>
  otherwise; the table is unchanged.
\<close>

theorem auth_FindBy_refines_login:
  assumes inv: "table_inv db" and req: "login_request u"
  shows "auth_FindBy (NewAuthService table_auth_repo) u db =
    (case login_spec (users_by_email db) (dto_Email u) (dto_Password u) of
       None \<Rightarrow> (Inl svc_ErrRecordNotFound, db) | Some r \<Rightarrow> (Inr (singleUserEntityToDTO r), db))"
  using login_table_FindBy [OF inv req]
  by (simp add: auth_FindBy_def split: option.split)

theorem auth_FindBy_refines_login_witness:
  "table_inv ana_table \<and> login_request ana_login \<and>
   auth_FindBy auth_on_table ana_login ana_table = (Inr (singleUserEntityToDTO ana_row), ana_table)"
proof -
  have h1: "table_inv ana_table" by (rule ana_table_inv)
  have h2: "login_request ana_login" by (simp add: login_request_def)
  have l: "login_spec (users_by_email ana_table) ''ana@example.com'' ''hunter2'' = Some ana_row"
    by (simp add: login_spec_def users_by_email_def ana_table_rows)
  show ?thesis
    using auth_FindBy_refines_login [OF h1 h2] h1 h2 l by simp
qed

text \<open>
  C3. Store then find: after a new user is stored, a login request with the
  same email and password returns exactly the record \<open>Store\<close> returned.
\<close>

theorem auth_Store_FindBy_roundtrip:
  assumes inv: "table_inv db" and new: "dto_ID u = 0"
    and stored: "auth_Store (NewAuthService table_auth_repo) u db = (Inr d, db')"
    and req: "login_request v" and email: "dto_Email v = dto_Email u"
    and pw: "dto_Password v = dto_Password u"
  shows "auth_FindBy (NewAuthService table_auth_repo) v db' = (Inr d, db')"
proof -
  let ?r = "stored_row (singleUserDTOToEntity u) db"
  have nc: "\<not> store_conflict (singleUserDTOToEntity u) db"
    using stored auth_Store_table_conflict [of u db] by auto
  have d: "d = singleUserEntityToDTO ?r" and db': "db' = snd (table_Store (singleUserDTOToEntity u) db)"
    using stored by (simp_all add: auth_Store_table_ok [OF nc])
  show ?thesis
    using auth_FindBy_after_Store [OF inv nc req email pw] d db' by simp
qed

theorem auth_Store_FindBy_roundtrip_witness:
  "auth_Store auth_on_table ana_request empty_table = (Inr (singleUserEntityToDTO ana_row), ana_table)
   \<and> auth_FindBy auth_on_table ana_login ana_table = (Inr (singleUserEntityToDTO ana_row), ana_table)"
proof -
  have st: "auth_Store auth_on_table ana_request empty_table = (Inr (singleUserEntityToDTO ana_row), ana_table)"
    by (rule auth_Store_table_ok [OF ana_no_conflict])
  have h2: "login_request ana_login" by (simp add: login_request_def)
  show ?thesis
    using auth_Store_FindBy_roundtrip [OF table_inv_empty _ st h2] st by simp
qed

text \<open>
  C4. For any repository, a \<open>FindBy\<close> failure other than not-found is
  returned wrapped with the failing operation: the original error is still
  in its chain (\<open>errors.Is\<close> finds it), it is not the service's not-found
  sentinel, its message is the context, a colon and the cause's message, and
  the repository's state is passed on.
\<close>

theorem auth_FindBy_wraps_other_errors:
  assumes repo: "ar_FindBy (auth_uRepo s) (singleUserDTOToEntity u) st = (Inl e, st')"
    and other: "\<not> errors_is e repo_ErrRecordNotFound"
  shows "\<exists>e'. auth_FindBy s u st = (Inl e', st') \<and> errors_is e' e \<and> e' \<noteq> svc_ErrRecordNotFound \<and>
           error_msg e' = ''error on calling findby on user repository: '' @ error_msg e"
  using auth_FindBy_Inl [OF repo] other by (simp add: errors_Wrap_def)

theorem auth_FindBy_wraps_other_errors_witness:
  "\<exists>e'. auth_FindBy (NewAuthService (failing_repo (Opaque ''dial tcp: connection refused''))) ana_login () = (Inl e', ())
     \<and> errors_is e' (Opaque ''dial tcp: connection refused'') \<and> e' \<noteq> svc_ErrRecordNotFound
     \<and> error_msg e' = ''error on calling findby on user repository: dial tcp: connection refused''"
proof -
  have h1: "ar_FindBy (auth_uRepo (NewAuthService (failing_repo (Opaque ''dial tcp: connection refused''))))
      (singleUserDTOToEntity ana_login) () = (Inl (Opaque ''dial tcp: connection refused''), ())"
    by simp
  have h2: "\<not> errors_is (Opaque ''dial tcp: connection refused'') repo_ErrRecordNotFound" by simp
  show ?thesis using auth_FindBy_wraps_other_errors [OF h1 h2] by simp
qed

text \<open>
  C5. For any repository, a \<open>FindBy\<close> failure that is (or wraps) the
  repository's \<open>ErrRecordNotFound\<close> is reported as the service's
  \<open>ErrRecordNotFound\<close> itself, with the repository's state passed on.
\<close>

theorem auth_FindBy_not_found:
  assumes repo: "ar_FindBy (auth_uRepo s) (singleUserDTOToEntity u) st = (Inl e, st')"
    and nf: "errors_is e repo_ErrRecordNotFound"
  shows "auth_FindBy s u st = (Inl svc_ErrRecordNotFound, st')"
  using auth_FindBy_Inl [OF repo] nf by simp

theorem auth_FindBy_not_found_witness:
  "auth_FindBy (NewAuthService (failing_repo (errors_Wrap repo_ErrRecordNotFound ''record lookup'')))
     ana_login () = (Inl svc_ErrRecordNotFound, ())"
proof -
  have h1: "ar_FindBy (auth_uRepo (NewAuthService (failing_repo (errors_Wrap repo_ErrRecordNotFound ''record lookup''))))
      (singleUserDTOToEntity ana_login) () = (Inl (errors_Wrap repo_ErrRecordNotFound ''record lookup''), ())"
    by simp
  have h2: "errors_is (errors_Wrap repo_ErrRecordNotFound ''record lookup'') repo_ErrRecordNotFound" by simp
  show ?thesis using auth_FindBy_not_found [OF h1 h2] .
qed

text \<open>
  C6. For any repository, a \<open>Store\<close> failure that is (or wraps) the
  repository's \<open>ErrDuplicateEntry\<close> is the service's \<open>ErrDuplicateEntry\<close>;
  any other failure is wrapped with the store context and keeps its cause.
\<close>

theorem auth_Store_error_translation:
  assumes repo: "ar_Store (auth_uRepo s) (singleUserDTOToEntity u) st = (Inl e, st')"
  shows "(errors_is e repo_ErrDuplicateEntry \<longrightarrow> auth_Store s u st = (Inl svc_ErrDuplicateEntry, st'))
       \<and> (\<not> errors_is e repo_ErrDuplicateEntry \<longrightarrow>
            (\<exists>e'. auth_Store s u st = (Inl e', st') \<and> errors_is e' e \<and> e' \<noteq> svc_ErrDuplicateEntry \<and>
                  error_msg e' = ''error on calling store on user repository: '' @ error_msg e))"
  using auth_Store_Inl [OF repo] by (simp add: errors_Wrap_def)

theorem auth_Store_error_translation_witness:
  "auth_Store (NewAuthService (failing_repo repo_ErrDuplicateEntry)) ana_request () = (Inl svc_ErrDuplicateEntry, ())"
proof -
  have h1: "ar_Store (auth_uRepo (NewAuthService (failing_repo repo_ErrDuplicateEntry)))
      (singleUserDTOToEntity ana_request) () = (Inl repo_ErrDuplicateEntry, ())"
    by simp
  show ?thesis using auth_Store_error_translation [OF h1] by simp
qed

text \<open>
  C7. The two conversions are inverse to each other but for the password,
  which the wire-to-entity direction replaces by its digest; every other
  field is copied.
\<close>

theorem conversion_roundtrip:
  "singleUserEntityToDTO (singleUserDTOToEntity u) = u\<lparr>dto_Password := encode_md5 (dto_Password u)\<rparr>
   \<and> singleUserDTOToEntity (singleUserEntityToDTO e) = e\<lparr>ent_Password := encode_md5 (ent_Password e)\<rparr>"
  by (simp add: singleUserDTOToEntity_def singleUserEntityToDTO_def)

text \<open>
  C8. Whatever the wire record holds, the entity handed to the repository
  carries as password a digest of fixed length 32 made of lowercase hex
  digits, never the plaintext's length or alphabet.
\<close>

theorem entity_password_is_digest:
  "length (ent_Password (singleUserDTOToEntity u)) = 32
   \<and> set (ent_Password (singleUserDTOToEntity u)) \<subseteq> set ''0123456789abcdef''"
proof -
  have "length (encode_md5 (dto_Password u)) = 32 \<and> set (encode_md5 (dto_Password u)) \<subseteq> set hextable"
    using is_md5_hex_encode_md5 [of "dto_Password u"] unfolding is_md5_hex_def list_all_iff by blast
  then show ?thesis by (simp only: conversion_fields hextable_def)
qed

text \<open>
  C9. \<open>FindBy\<close> on the table repository only ever returns a user whose stored
  password is the digest of the criteria's password, whatever else the
  criteria hold: an empty password in the criteria is hashed too, so it is
  a condition, not a wildcard. The table is unchanged.
\<close>

theorem auth_FindBy_checks_digest:
  assumes run: "auth_FindBy (NewAuthService table_auth_repo) v db = (Inr d, db')"
  shows "dto_Password d = encode_md5 (dto_Password v) \<and> db' = db"
proof -
  obtain r where r: "table_FindBy (singleUserDTOToEntity v) db = (Inr r, db')"
    and d: "d = singleUserEntityToDTO r"
    using run by (auto simp add: auth_FindBy_def split: sum.splits prod.splits if_splits)
  then have "row_matches (singleUserDTOToEntity v) r" and "db' = db"
    using table_FindBy_Inr by blast+
  then show ?thesis
    using d by (auto simp add: row_matches_def cond_str_def)
qed

theorem auth_FindBy_checks_digest_witness:
  "dto_Password (singleUserEntityToDTO ana_row) = encode_md5 (dto_Password ana_login)"
proof -
  have run: "auth_FindBy auth_on_table ana_login ana_table = (Inr (singleUserEntityToDTO ana_row), ana_table)"
    by (simp add: auth_FindBy_def table_FindBy_def ana_table_rows ana_login_matches)
  show ?thesis using auth_FindBy_checks_digest [OF run] by simp
qed

end
