(* ===== verification/Source_Service.thy ===== *)
theory Source_Service
  imports Auth_Service
begin

text \<open>
  src/internal/service/user.go: the source service. \<open>SourceService\<close> holds
  a \<open>mysql.UserRepository\<close>; \<open>Store\<close> and \<open>Update\<close> assign the digest to
  \<open>u.Password\<close> through the caller's pointer (\<open>Update\<close> only when the password
  is not empty) and pass the record on; \<open>Find\<close> and \<open>Destroy\<close> pass it on as
  it is. Nothing is translated or wrapped: the repository's result is the
  service's. Since Go's assignment is visible to the caller, \<open>Store\<close> and
  \<open>Update\<close> return, besides the Go result, the caller's record as it is
  after the call. Results: an empty password leaves the stored one
  unchanged and a non-empty one is stored as its digest; the operations keep
  the table invariant and store only digests; the caller's record is left holding the digest, so a
  retry with it stores the digest of the digest; repository errors reach
  the caller untranslated; \<open>Find\<close> compares passwords unhashed, so a
  plaintext password never matches a stored digest.
\<close>

section \<open>The service\<close>

text \<open>The \<open>UserSourceService\<close> interface: the four methods over the repository state.\<close>

record 's UserSourceService =
  uss_Store :: "dto_user \<Rightarrow> 's \<Rightarrow> ((dto_user go_result \<times> dto_user) \<times> 's)"
  uss_Find :: "dto_user \<Rightarrow> 's \<Rightarrow> (dto_user, 's) go_call"
  uss_Destroy :: "dto_user \<Rightarrow> 's \<Rightarrow> 's go_call_err"
  uss_Update :: "dto_user \<Rightarrow> 's \<Rightarrow> ((go_error option \<times> dto_user) \<times> 's)"

record 's SourceService =
  src_uRepo :: "'s source_user_repository"

definition source_Store :: "'s SourceService \<Rightarrow> dto_user \<Rightarrow> 's \<Rightarrow> ((dto_user go_result \<times> dto_user) \<times> 's)" where
  "source_Store s u st =
    (let u = u\<lparr>dto_Password := encode_md5 (dto_Password u)\<rparr>;
         (res, st') = sr_Store (src_uRepo s) u st
     in ((res, u), st'))"

definition source_Find :: "'s SourceService \<Rightarrow> dto_user \<Rightarrow> 's \<Rightarrow> (dto_user, 's) go_call" where
  "source_Find s u st = sr_Find (src_uRepo s) u st"

definition source_Destroy :: "'s SourceService \<Rightarrow> dto_user \<Rightarrow> 's \<Rightarrow> 's go_call_err" where
  "source_Destroy s u st = sr_Destroy (src_uRepo s) u st"

definition source_Update :: "'s SourceService \<Rightarrow> dto_user \<Rightarrow> 's \<Rightarrow> ((go_error option \<times> dto_user) \<times> 's)" where
  "source_Update s u st =
    (let u = (if dto_Password u \<noteq> [] then u\<lparr>dto_Password := encode_md5 (dto_Password u)\<rparr> else u);
         (err, st') = sr_Update (src_uRepo s) u st
     in ((err, u), st'))"

text \<open>\<open>NewSourceService\<close>: the struct behind the interface, its methods bound to it.\<close>

definition NewSourceService :: "'s source_user_repository \<Rightarrow> 's UserSourceService" where
  "NewSourceService uRepo =
    (let s = \<lparr>src_uRepo = uRepo\<rparr>
     in \<lparr>uss_Store = source_Store s, uss_Find = source_Find s,
         uss_Destroy = source_Destroy s, uss_Update = source_Update s\<rparr>)"

abbreviation source_on_table :: "user_table SourceService" where
  "source_on_table \<equiv> \<lparr>src_uRepo = table_source_repo\<rparr>"

text \<open>The record \<open>Update\<close> passes on: the password replaced by its digest unless empty.\<close>

abbreviation hashed_for_update :: "dto_user \<Rightarrow> dto_user" where
  "hashed_for_update u \<equiv> (if dto_Password u \<noteq> [] then u\<lparr>dto_Password := encode_md5 (dto_Password u)\<rparr> else u)"

text \<open>A repository whose first \<open>Store\<close> fails with a transient error, then succeeds.\<close>

abbreviation flaky_repo :: "nat source_user_repository" where
  "flaky_repo \<equiv> \<lparr>sr_Store = (\<lambda>u n. if n = 0 then (Inl (Opaque ''Error 1213: Deadlock found''), Suc n)
                                    else (Inr u, Suc n)),
                sr_Find = (\<lambda>u n. (Inr u, n)), sr_Destroy = (\<lambda>u n. (None, n)),
                sr_Update = (\<lambda>u n. (None, n))\<rparr>"

section \<open>Lemmas\<close>

lemma source_Update_eq:
  "source_Update s u st =
     (let (err, st') = sr_Update (src_uRepo s) (hashed_for_update u) st in ((err, hashed_for_update u), st'))"
  by (simp add: source_Update_def Let_def)

lemma source_Store_eq:
  "source_Store s u st =
     (let (res, st') = sr_Store (src_uRepo s) (u\<lparr>dto_Password := encode_md5 (dto_Password u)\<rparr>) st
      in ((res, u\<lparr>dto_Password := encode_md5 (dto_Password u)\<rparr>), st'))"
  by (simp add: source_Store_def Let_def)

lemma table_Update_passwords_kept:
  "ent_Password u = [] \<Longrightarrow> map ent_Password (tbl_rows (snd (table_Update u db))) = map ent_Password (tbl_rows db)"
  by (auto simp add: table_Update_def pick_str_def intro: map_update_where_same_key)

text \<open>The two services hand the table the same row and read back the same record.\<close>

lemma row_of_hashed_dto:
  "row_of_dto (u\<lparr>dto_Password := encode_md5 (dto_Password u)\<rparr>) = singleUserDTOToEntity u"
  by (simp add: row_of_dto_def singleUserDTOToEntity_def)

lemma dto_of_row_conversion: "dto_of_row = singleUserEntityToDTO"
  by (simp add: fun_eq_iff dto_of_row_def singleUserEntityToDTO_def)

text \<open>A stored row matches the criteria it was stored from.\<close>

lemma row_matches_stored_row: "row_matches u (stored_row u db)"
  by (simp add: row_matches_def cond_str_def cond_nat_def stored_row_def pick_nat_def)

text \<open>Without a conflict, no row of the table carries the email being stored.\<close>

lemma no_conflict_email:
  "\<not> store_conflict u db \<Longrightarrow> r \<in> set (tbl_rows db) \<Longrightarrow> ent_Email r \<noteq> ent_Email u"
  by (auto simp add: store_conflict_def list_ex_iff)

section \<open>Properties\<close>

text \<open>
  C10. \<open>Update\<close> with an empty password on the table repository leaves every
  stored password as it was, and the caller's record untouched.
\<close>

theorem source_Update_keeps_password:
  assumes empty: "dto_Password u = []"
    and run: "source_Update source_on_table u db = ((err, u'), db')"
  shows "map ent_Password (tbl_rows db') = map ent_Password (tbl_rows db) \<and> u' = u"
proof -
  have "db' = snd (table_Update (row_of_dto u) db)" and "u' = u"
    using run empty by (simp_all add: source_Update_eq split: prod.splits)
  then show ?thesis using empty table_Update_passwords_kept [of "row_of_dto u" db] by simp
qed

theorem source_Update_keeps_password_witness:
  "map ent_Password (tbl_rows (snd (source_Update source_on_table
      (ana_login\<lparr>dto_ID := 1, dto_FirstName := ''Anna'', dto_Password := []\<rparr>) ana_table)))
   = map ent_Password (tbl_rows ana_table)"
proof -
  let ?u = "ana_login\<lparr>dto_ID := 1, dto_FirstName := ''Anna'', dto_Password := []\<rparr>"
  have h1: "dto_Password ?u = []" by simp
  have h2: "source_Update source_on_table ?u ana_table =
      ((fst (fst (source_Update source_on_table ?u ana_table)), snd (fst (source_Update source_on_table ?u ana_table))),
       snd (source_Update source_on_table ?u ana_table))"
    by simp
  show ?thesis using source_Update_keeps_password [OF h1 h2] by simp
qed

text \<open>
  C11. \<open>Update\<close> with a non-empty password that succeeds on the table
  repository stores the digest of the new password in the row with the
  record's identifier, keeps every other row, and leaves the caller's record
  holding the digest.
\<close>

theorem source_Update_hashes_password:
  assumes nonempty: "dto_Password u \<noteq> []"
    and run: "source_Update source_on_table u db = ((None, u'), db')"
  shows "u' = u\<lparr>dto_Password := encode_md5 (dto_Password u)\<rparr>
    \<and> (\<forall>r\<in>set (tbl_rows db'). ent_ID r = dto_ID u \<longrightarrow> ent_Password r = encode_md5 (dto_Password u))
    \<and> (\<forall>r\<in>set (tbl_rows db). ent_ID r \<noteq> dto_ID u \<longrightarrow> r \<in> set (tbl_rows db'))"
proof -
  let ?v = "u\<lparr>dto_Password := encode_md5 (dto_Password u)\<rparr>"
  have upd: "table_Update (row_of_dto ?v) db = (None, db')" and u': "u' = ?v"
    using run nonempty by (simp_all add: source_Update_eq split: prod.splits)
  then have nc: "\<not> update_conflict (row_of_dto ?v) db"
    by (auto simp add: table_Update_def split: if_splits)
  have "db' = snd (table_Update (row_of_dto ?v) db)"
    using upd by simp
  then have rows: "tbl_rows db' =
      map (\<lambda>r. if ent_ID r = dto_ID u then merge_row (tbl_clock db) (row_of_dto ?v) r else r) (tbl_rows db)"
    by (simp add: table_Update_ok [OF nc])
  show ?thesis
    using u' by (auto simp add: rows pick_str_def)
qed

theorem source_Update_hashes_password_witness:
  "ent_Password (hd (tbl_rows (snd (source_Update source_on_table
      (ana_login\<lparr>dto_ID := 1, dto_Email := [], dto_Password := ''s3cret''\<rparr>) ana_table))))
   = encode_md5 ''s3cret''"
proof -
  let ?u = "ana_login\<lparr>dto_ID := 1, dto_Email := [], dto_Password := ''s3cret''\<rparr>"
  let ?rows = "tbl_rows (snd (source_Update source_on_table ?u ana_table))"
  have h1: "dto_Password ?u \<noteq> []" by simp
  have none: "fst (fst (source_Update source_on_table ?u ana_table)) = None"
    by (simp add: source_Update_eq table_Update_def update_conflict_def split_def)
  have h2: "source_Update source_on_table ?u ana_table =
      ((None, snd (fst (source_Update source_on_table ?u ana_table))), snd (source_Update source_on_table ?u ana_table))"
    using none by (metis prod.collapse)
  have id: "tbl_next_id empty_table = 1"
    by (simp add: empty_table_def)
  have rows: "?rows \<noteq> [] \<and> ent_ID (hd ?rows) = 1"
    by (simp add: source_Update_eq table_Update_def update_conflict_def split_def ana_table_rows id pick_nat_def)
  show ?thesis
    using source_Update_hashes_password [OF h1 h2] rows hd_in_set [of ?rows] by simp
qed

text \<open>
  C12. \<open>Store\<close> leaves the caller's record holding the digest (the
  assignment goes through the pointer). Calling \<open>Store\<close> again with that
  record, as a retry after a failure does, hands the repository the digest
  of the digest.
\<close>

theorem source_Store_retry_double_digest:
  assumes first: "source_Store s u st = ((r1, u1), st1)"
    and retry: "source_Store s u1 st1 = ((r2, u2), st2)"
  shows "u1 = u\<lparr>dto_Password := encode_md5 (dto_Password u)\<rparr>
    \<and> dto_Password u2 = encode_md5 (encode_md5 (dto_Password u))
    \<and> sr_Store (src_uRepo s) u2 st1 = (r2, st2)"
  using first retry by (auto simp add: source_Store_eq split: prod.splits)

theorem source_Store_retry_double_digest_witness:
  "dto_Password (snd (fst (source_Store \<lparr>src_uRepo = flaky_repo\<rparr> ana_request 0))) = encode_md5 ''hunter2''
   \<and> fst (fst (source_Store \<lparr>src_uRepo = flaky_repo\<rparr> (snd (fst (source_Store \<lparr>src_uRepo = flaky_repo\<rparr> ana_request 0))) 1))
       = Inr (ana_request\<lparr>dto_Password := encode_md5 (encode_md5 ''hunter2'')\<rparr>)
   \<and> encode_md5 (encode_md5 ''hunter2'') \<noteq> encode_md5 ''hunter2''"
proof -
  let ?s = "\<lparr>src_uRepo = flaky_repo\<rparr>"
  have ne: "encode_md5 (encode_md5 ''hunter2'') \<noteq> encode_md5 ''hunter2''" by code_simp
  have f: "source_Store ?s ana_request 0 =
      ((Inl (Opaque ''Error 1213: Deadlock found''), ana_request\<lparr>dto_Password := encode_md5 ''hunter2''\<rparr>), 1)"
    by (simp add: source_Store_eq)
  have r: "source_Store ?s (ana_request\<lparr>dto_Password := encode_md5 ''hunter2''\<rparr>) 1 =
      ((Inr (ana_request\<lparr>dto_Password := encode_md5 (encode_md5 ''hunter2'')\<rparr>),
        ana_request\<lparr>dto_Password := encode_md5 (encode_md5 ''hunter2'')\<rparr>), 2)"
    by (simp add: source_Store_eq)
  show ?thesis using source_Store_retry_double_digest [OF f r] f r ne by simp
qed

text \<open>
  C13. \<open>Store\<close> on the table repository with an email already taken returns
  the repository's \<open>ErrDuplicateEntry\<close> itself, which \<open>errors.Is\<close> does not
  match against the service's \<open>ErrDuplicateEntry\<close>: the source service does
  not translate repository errors.
\<close>

theorem source_Store_duplicate_untranslated:
  assumes dup: "store_conflict (row_of_dto (u\<lparr>dto_Password := encode_md5 (dto_Password u)\<rparr>)) db"
  shows "source_Store source_on_table u db =
           ((Inl repo_ErrDuplicateEntry, u\<lparr>dto_Password := encode_md5 (dto_Password u)\<rparr>), db)
     \<and> \<not> errors_is repo_ErrDuplicateEntry svc_ErrDuplicateEntry"
  using dup by (simp add: source_Store_eq table_Store_conflict)

theorem source_Store_duplicate_untranslated_witness:
  "fst (fst (source_Store source_on_table ana_request ana_table)) = Inl repo_ErrDuplicateEntry"
proof -
  have h: "store_conflict (row_of_dto (ana_request\<lparr>dto_Password := encode_md5 (dto_Password ana_request)\<rparr>)) ana_table"
    by (simp add: store_conflict_def ana_table_rows)
  show ?thesis using source_Store_duplicate_untranslated [OF h] by simp
qed

text \<open>
  C14. \<open>Store\<close>, \<open>Update\<close> and \<open>Destroy\<close> on the table repository keep the
  table invariant and keep every stored password an MD5 hex digest: the
  source service writes only digests (\<open>Update\<close> writes no password when
  the new one is empty).
\<close>

theorem source_ops_keep_digests:
  assumes inv: "table_inv db" and pw: "list_all (\<lambda>r. is_md5_hex (ent_Password r)) (tbl_rows db)"
  shows "table_inv (snd (source_Store source_on_table u db))
       \<and> list_all (\<lambda>r. is_md5_hex (ent_Password r)) (tbl_rows (snd (source_Store source_on_table u db)))
       \<and> table_inv (snd (source_Update source_on_table u db))
       \<and> list_all (\<lambda>r. is_md5_hex (ent_Password r)) (tbl_rows (snd (source_Update source_on_table u db)))
       \<and> table_inv (snd (source_Destroy source_on_table u db))
       \<and> list_all (\<lambda>r. is_md5_hex (ent_Password r)) (tbl_rows (snd (source_Destroy source_on_table u db)))"
proof -
  let ?s = "row_of_dto (u\<lparr>dto_Password := encode_md5 (dto_Password u)\<rparr>)"
  let ?v = "row_of_dto (hashed_for_update u)"
  have st: "snd (source_Store source_on_table u db) = snd (table_Store ?s db)"
    by (simp add: source_Store_eq split_def Let_def)
  have up: "snd (source_Update source_on_table u db) = snd (table_Update ?v db)"
    by (simp add: source_Update_eq split_def Let_def)
  have de: "snd (source_Destroy source_on_table u db) = snd (table_Destroy (row_of_dto u) db)"
    by (simp add: source_Destroy_def)
  have "ent_Password ?v \<noteq> [] \<Longrightarrow> is_md5_hex (ent_Password ?v)"
    by (simp split: if_splits)
  then show ?thesis
    unfolding st up de
    using table_ops_inv [OF inv] table_Store_passwords [of is_md5_hex ?s, OF _ pw]
      table_Update_passwords [of ?v is_md5_hex, OF _ pw] table_Destroy_passwords [OF pw]
    by simp
qed

theorem source_ops_keep_digests_witness:
  "table_inv ana_table \<and> list_all (\<lambda>r. is_md5_hex (ent_Password r)) (tbl_rows ana_table)
   \<and> list_all (\<lambda>r. is_md5_hex (ent_Password r)) (tbl_rows (snd (source_Store source_on_table ana_login ana_table)))"
  using source_ops_keep_digests [OF ana_table_inv, of ana_login] ana_table_inv by (simp add: ana_table_rows)

text \<open>
  C15. \<open>Find\<close> passes the criteria to the repository unhashed: on any table
  whose passwords are all MD5 hex digests (as \<open>Store\<close> and \<open>Update\<close> leave
  it, C14), a \<open>Find\<close> whose password is a non-empty plaintext (not itself a
  32-digit hex string) finds nothing, whatever user the other fields name.
\<close>

theorem source_Find_plaintext_fails:
  assumes pw: "list_all (\<lambda>r. is_md5_hex (ent_Password r)) (tbl_rows db)"
    and plain: "dto_Password u \<noteq> []" "\<not> is_md5_hex (dto_Password u)"
  shows "source_Find source_on_table u db = (Inl repo_ErrRecordNotFound, db)"
proof -
  have "\<not> row_matches (row_of_dto u) r" if "r \<in> set (tbl_rows db)" for r
    using pw that plain by (auto simp add: row_matches_def cond_str_def list_all_iff)
  then have "find (row_matches (row_of_dto u)) (tbl_rows db) = None"
    by (simp add: find_None_iff)
  then show ?thesis
    by (simp add: source_Find_def table_FindBy_def)
qed

theorem source_Find_plaintext_fails_witness:
  "source_Find source_on_table ana_login ana_table = (Inl repo_ErrRecordNotFound, ana_table)"
proof -
  have "\<not> is_md5_hex ''hunter2''"
    by (simp add: is_md5_hex_def)
  then show ?thesis
    using source_Find_plaintext_fails [of ana_table ana_login] by (simp add: ana_table_rows)
qed

text \<open>
  C25. The two service variants agree on \<open>Store\<close> over the shared table up
  to error translation: \<open>SourceService.Store\<close> leaves the same table as
  \<open>AuthService.Store\<close> and returns the same record on success; on failure it
  returns the repository's \<open>ErrDuplicateEntry\<close> where the auth service
  returns its own.
\<close>

theorem source_Store_equiv_auth_Store:
  "snd (source_Store source_on_table u db) = snd (auth_Store (NewAuthService table_auth_repo) u db)
   \<and> (case fst (fst (source_Store source_on_table u db)) of
        Inr d \<Rightarrow> fst (auth_Store (NewAuthService table_auth_repo) u db) = Inr d
      | Inl e \<Rightarrow> e = repo_ErrDuplicateEntry
                 \<and> fst (auth_Store (NewAuthService table_auth_repo) u db) = Inl svc_ErrDuplicateEntry)"
proof (cases "store_conflict (singleUserDTOToEntity u) db")
  case True
  then show ?thesis
    by (simp add: source_Store_eq row_of_hashed_dto table_Store_conflict auth_Store_table_conflict)
next
  case False
  then show ?thesis
    by (simp add: source_Store_eq row_of_hashed_dto dto_of_row_conversion table_Store_ok auth_Store_table_ok)
qed

text \<open>
  C29. Because \<open>Store\<close> leaves the digest in the caller's record, a \<open>Find\<close>
  with that same record after a successful store finds exactly the stored
  user (in contrast with a \<open>Find\<close> with the plaintext, C15).
\<close>

theorem source_Store_Find_roundtrip:
  assumes email: "dto_Email u \<noteq> []"
    and run: "source_Store source_on_table u db = ((Inr d, u'), db')"
  shows "source_Find source_on_table u' db' = (Inr d, db')"
proof -
  let ?c = "row_of_dto (u\<lparr>dto_Password := encode_md5 (dto_Password u)\<rparr>)"
  have nc: "\<not> store_conflict ?c db"
    using run by (auto simp add: source_Store_eq table_Store_conflict)
  have "source_Store source_on_table u db =
      ((Inr (dto_of_row (stored_row ?c db)), u\<lparr>dto_Password := encode_md5 (dto_Password u)\<rparr>),
       snd (table_Store ?c db))"
    by (simp add: source_Store_eq table_Store_ok [OF nc])
  then have u': "u' = u\<lparr>dto_Password := encode_md5 (dto_Password u)\<rparr>"
    and d: "d = dto_of_row (stored_row ?c db)" and db'': "db' = snd (table_Store ?c db)"
    using run by simp_all
  have db': "tbl_rows db' = tbl_rows db @ [stored_row ?c db]"
    by (simp add: db'' table_Store_ok [OF nc])
  have "\<not> row_matches ?c r" if "r \<in> set (tbl_rows db)" for r
    using no_conflict_email [OF nc that] email by (simp add: row_matches_def cond_str_def)
  then have "find (row_matches ?c) (tbl_rows db') = Some (stored_row ?c db)"
    by (simp add: db' find_append_none list_ex_iff row_matches_stored_row)
  then show ?thesis
    by (simp add: u' d source_Find_def table_FindBy_def)
qed

theorem source_Store_Find_roundtrip_witness:
  "source_Find source_on_table (snd (fst (source_Store source_on_table ana_request empty_table)))
     (snd (source_Store source_on_table ana_request empty_table))
   = (Inr (projr (fst (fst (source_Store source_on_table ana_request empty_table)))),
      snd (source_Store source_on_table ana_request empty_table))"
proof -
  have ok: "fst (fst (source_Store source_on_table ana_request empty_table)) =
      Inr (projr (fst (fst (source_Store source_on_table ana_request empty_table))))"
    by (simp add: source_Store_eq table_Store_def store_conflict_def empty_table_def split_def Let_def)
  have run: "source_Store source_on_table ana_request empty_table =
      ((Inr (projr (fst (fst (source_Store source_on_table ana_request empty_table)))),
        snd (fst (source_Store source_on_table ana_request empty_table))),
       snd (source_Store source_on_table ana_request empty_table))"
    using ok by (metis prod.collapse)
  show ?thesis
    using source_Store_Find_roundtrip [OF _ run] by simp
qed

end
