(* ===== verification/Server.thy ===== *)
theory Server
  imports Prelude
begin

text \<open>
  src/internal/server/server.go: the bootstrap. \<open>NewServer\<close> listens on
  \<open>fmt.Sprintf("%s:%d", Host, Port)\<close> with the configured protocol, wraps a
  listen failure with \<open>"failed to listen to port"\<close>, creates the gRPC server
  and registers the auth handler, the only service; \<open>Listen\<close> logs the
  startup line and serves. What server.go calls is modelled as far as it
  relies on it: \<open>config.ServerConf\<close> as a record, \<open>fmt\<close>'s \<open>%d\<close> as decimal
  digits, \<open>net.Listen\<close> for the TCP networks as address splitting
  (\<open>net.SplitHostPort\<close>, simplified for bracketed hosts), port parsing, a
  table of bound addresses and port 0 as a free port of the ephemeral range, the gRPC server as its list of registered
  services and a serving flag, the logger as a list of lines. Results: the
  address printed is split back into the configured host and port for every
  host without a colon; an unbracketed IPv6 host makes every \<open>NewServer\<close>
  fail; a bind failure is returned wrapped and leaves no server; a server
  has exactly the auth service registered; the startup line carries the
  port in angle brackets, the configured one even when port 0 has the
  listener bound elsewhere.
\<close>

section \<open>Configuration and formatting\<close>

record ServerConf =
  conf_Protocol :: string
  conf_Host :: string
  conf_Port :: nat

text \<open>\<open>fmt\<close>'s \<open>%d\<close> on a non-negative integer.\<close>

fun go_itoa :: "nat \<Rightarrow> string" where
  "go_itoa n = (if n < 10 then [char_of (48 + n)] else go_itoa (n div 10) @ [char_of (48 + n mod 10)])"

declare go_itoa.simps [simp del]

definition is_digit :: "char \<Rightarrow> bool" where
  "is_digit c = (48 \<le> (of_char c :: nat) \<and> (of_char c :: nat) \<le> 57)"

text \<open>A decimal port number as \<open>net\<close> parses it.\<close>

definition parse_dec :: "string \<Rightarrow> nat option" where
  "parse_dec s =
    (if s \<noteq> [] \<and> list_all is_digit s then Some (foldl (\<lambda>a c. 10 * a + (of_char c - 48)) 0 s) else None)"

definition listen_address :: "ServerConf \<Rightarrow> string" where
  "listen_address c = conf_Host c @ '':'' @ go_itoa (conf_Port c)"

section \<open>net.Listen\<close>

text \<open>
  \<open>net.SplitHostPort\<close>: the port follows the last colon; a bracketed host is
  taken between the brackets; an unbracketed host with a colon is
  \<open>"too many colons in address"\<close>.
\<close>

definition split_host_port :: "string \<Rightarrow> string + (string \<times> string)" where
  "split_host_port hp =
    (if CHR '':'' \<notin> set hp then Inl ''missing port in address''
     else
       let port = rev (takeWhile (\<lambda>c. c \<noteq> CHR '':'') (rev hp));
           hostpart = rev (tl (dropWhile (\<lambda>c. c \<noteq> CHR '':'') (rev hp)))
       in if take 1 hostpart = ''[''
          then (if 2 \<le> length hostpart \<and> last hostpart = CHR '']''
                then Inr (butlast (tl hostpart), port) else Inl ''missing ']' in address'')
          else if CHR '':'' \<in> set hostpart then Inl ''too many colons in address''
          else Inr (hostpart, port))"

record Listener =
  ln_network :: string
  ln_host :: string
  ln_port :: nat

record net_state =
  net_bound :: "(string \<times> nat) list"

text \<open>
  Port 0 asks the kernel for a free port of its ephemeral range (Linux's
  default \<open>ip_local_port_range\<close>, 32768 to 60999); the kernel may pick any
  free one, the model the least. \<open>None\<close>: the range is exhausted.
\<close>

definition ephemeral_port :: "string \<Rightarrow> net_state \<Rightarrow> nat option" where
  "ephemeral_port h ns = find (\<lambda>p. (h, p) \<notin> set (net_bound ns)) [32768..<61000]"

text \<open>
  The messages are \<open>net.OpError\<close>'s: \<open>"listen <network>: <err>"\<close> while the
  address is being resolved (its \<open>Addr\<close> is nil; an \<open>AddrError\<close> prints
  \<open>"address <addr>: <why>"\<close>, a failed port lookup \<open>"lookup <network>/<port>:
  unknown port"\<close>), and \<open>"listen <network> <addr>: bind: ..."\<close> once the
  socket exists.
\<close>

definition net_Listen :: "string \<Rightarrow> string \<Rightarrow> net_state \<Rightarrow> (Listener, net_state) go_call" where
  "net_Listen network address ns =
    (let op_err = (\<lambda>err. Opaque (''listen '' @ network @ '': '' @ err));
         addr_err = (\<lambda>a why. ''address '' @ a @ '': '' @ why)
     in if network \<notin> set [''tcp'', ''tcp4'', ''tcp6''] then
       (Inl (op_err (''unknown network '' @ network)), ns)
     else case split_host_port address of
       Inl why \<Rightarrow> (Inl (op_err (addr_err address why)), ns)
     | Inr (h, p) \<Rightarrow>
         (case parse_dec p of
            None \<Rightarrow> (Inl (op_err (''lookup '' @ network @ ''/'' @ p @ '': unknown port'')), ns)
          | Some n \<Rightarrow>
              if 65535 < n then (Inl (op_err (addr_err p ''invalid port'')), ns)
              else (case (if n = 0 then ephemeral_port h ns else Some n) of
                      None \<Rightarrow> (Inl (Opaque (''listen '' @ network @ '' '' @ address @ '': bind: address already in use'')), ns)
                    | Some m \<Rightarrow>
                        if (h, m) \<in> set (net_bound ns) then
                          (Inl (Opaque (''listen '' @ network @ '' '' @ address @ '': bind: address already in use'')), ns)
                        else (Inr \<lparr>ln_network = network, ln_host = h, ln_port = m\<rparr>,
                              ns\<lparr>net_bound := (h, m) # net_bound ns\<rparr>))))"

section \<open>The gRPC server\<close>

record 'h grpc_server =
  grpc_services :: "(string \<times> 'h) list"
  grpc_serving :: bool

definition grpc_NewServer :: "'h grpc_server" where
  "grpc_NewServer = \<lparr>grpc_services = [], grpc_serving = False\<rparr>"

definition auth_service_name :: string where
  "auth_service_name = ''user.auth.UserAuthService''"

definition RegisterUserAuthServiceServer :: "'h grpc_server \<Rightarrow> 'h \<Rightarrow> 'h grpc_server" where
  "RegisterUserAuthServiceServer s h = s\<lparr>grpc_services := grpc_services s @ [(auth_service_name, h)]\<rparr>"

text \<open>\<open>resource.UserResource\<close>: the handlers the bootstrap is given.\<close>

record 'h UserResource =
  AuthHandler :: 'h

section \<open>The bootstrap\<close>

record 'h Server =
  srv_listener :: Listener
  srv_grpc :: "'h grpc_server"
  srv_conf :: ServerConf

definition NewServer :: "ServerConf \<Rightarrow> 'h UserResource \<Rightarrow> net_state \<Rightarrow> ('h Server, net_state) go_call" where
  "NewServer c uRes ns =
    (case net_Listen (conf_Protocol c) (listen_address c) ns of
       (Inl err, ns') \<Rightarrow> (Inl (errors_Wrap err ''failed to listen to port''), ns')
     | (Inr l, ns') \<Rightarrow>
         (let s = grpc_NewServer;
              s = RegisterUserAuthServiceServer s (AuthHandler uRes)
          in (Inr \<lparr>srv_listener = l, srv_grpc = s, srv_conf = c\<rparr>, ns')))"

definition startup_log_line :: "ServerConf \<Rightarrow> string" where
  "startup_log_line c =
    conf_Protocol c @ '' server started listening on port <'' @ go_itoa (conf_Port c) @ ''>''"

text \<open>
  \<open>Listen\<close>: the log line, then \<open>Serve\<close>, which blocks serving calls; its
  return when the listener closes is a step of the process model.
\<close>

definition Listen :: "'h Server \<Rightarrow> string list \<Rightarrow> 'h Server \<times> string list" where
  "Listen s logs =
    (s\<lparr>srv_grpc := (srv_grpc s)\<lparr>grpc_serving := True\<rparr>\<rparr>, logs @ [startup_log_line (srv_conf s)])"

text \<open>
  \<open>grpc.Server.Serve\<close> returns when \<open>Accept\<close> on its listener fails with a
  non-temporary error: it stops serving, closes the listener (the address is
  free again) and returns that error; it returns nil only after \<open>Stop\<close>,
  which server.go never calls. On a listener that has been closed, \<open>net\<close>'s
  \<open>Accept\<close> fails with \<open>"accept <network> <addr>: use of closed network
  connection"\<close>.
\<close>

definition grpc_Serve_return ::
  "'h grpc_server \<Rightarrow> Listener \<Rightarrow> net_state \<Rightarrow> go_error \<times> 'h grpc_server \<times> net_state" where
  "grpc_Serve_return g l ns =
    (Opaque (''accept '' @ ln_network l @ '' '' @ ln_host l @ '':'' @ go_itoa (ln_port l)
             @ '': use of closed network connection''),
     g\<lparr>grpc_serving := False\<rparr>,
     ns\<lparr>net_bound := removeAll (ln_host l, ln_port l) (net_bound ns)\<rparr>)"

text \<open>\<open>return s.grpc.Serve(s.listener)\<close>: what \<open>Listen\<close> returns once serving ends.\<close>

definition Listen_return :: "'h Server \<Rightarrow> net_state \<Rightarrow> go_error \<times> 'h Server \<times> net_state" where
  "Listen_return s ns =
    (case grpc_Serve_return (srv_grpc s) (srv_listener s) ns of
       (err, g, ns') \<Rightarrow> (err, s\<lparr>srv_grpc := g\<rparr>, ns'))"

section \<open>Lemmas: decimal formatting and address splitting\<close>

lemma go_itoa_digits: "go_itoa n \<noteq> [] \<and> list_all is_digit (go_itoa n)"
proof (induction n rule: go_itoa.induct)
  case (1 n)
  show ?case
    using "1" unfolding go_itoa.simps [of n] by (auto simp add: is_digit_def)
qed

lemma go_itoa_value: "foldl (\<lambda>a c. 10 * a + (of_char c - 48)) 0 (go_itoa n) = n"
proof (induction n rule: go_itoa.induct)
  case (1 n)
  show ?case
  proof (cases "n < 10")
    case True
    then show ?thesis by (subst go_itoa.simps) simp
  next
    case False
    then have "foldl (\<lambda>a c. 10 * a + (of_char c - 48)) 0 (go_itoa n) =
       10 * foldl (\<lambda>a c. 10 * a + (of_char c - 48)) 0 (go_itoa (n div 10)) + n mod 10"
      by (subst go_itoa.simps) simp
    with "1" False show ?thesis by simp
  qed
qed

lemma parse_dec_go_itoa: "parse_dec (go_itoa n) = Some n"
  using go_itoa_digits [of n] by (simp add: parse_dec_def go_itoa_value)

lemma colon_not_digit: "list_all is_digit s \<Longrightarrow> CHR '':'' \<notin> set s"
  by (auto simp add: list_all_iff is_digit_def)

lemma split_host_port_append:
  assumes h: "CHR '':'' \<notin> set h" "take 1 h \<noteq> ''[''" and d: "CHR '':'' \<notin> set d"
  shows "split_host_port (h @ '':'' @ d) = Inr (h, d)"
proof -
  have t: "takeWhile (\<lambda>c. c \<noteq> CHR '':'') (rev d @ CHR '':'' # rev h) = rev d"
    using d by (simp add: takeWhile_neq_append)
  have w: "dropWhile (\<lambda>c. c \<noteq> CHR '':'') (rev d @ CHR '':'' # rev h) = CHR '':'' # rev h"
    using d by (simp add: dropWhile_neq_append)
  show ?thesis
    using h t w by (simp add: split_host_port_def Let_def)
qed

lemma port_of_listen_address:
  "rev (takeWhile (\<lambda>c. c \<noteq> CHR '':'') (rev (listen_address c))) = go_itoa (conf_Port c)"
  using colon_not_digit [OF conjunct2 [OF go_itoa_digits]]
  by (simp add: listen_address_def takeWhile_neq_append)

lemma NewServer_Inl:
  "net_Listen (conf_Protocol c) (listen_address c) ns = (Inl e, ns') \<Longrightarrow>
   NewServer c r ns = (Inl (errors_Wrap e ''failed to listen to port''), ns')"
  by (simp add: NewServer_def)

lemma NewServer_Inr:
  "net_Listen (conf_Protocol c) (listen_address c) ns = (Inr l, ns') \<Longrightarrow>
   NewServer c r ns = (Inr \<lparr>srv_listener = l, srv_grpc = RegisterUserAuthServiceServer grpc_NewServer (AuthHandler r),
                            srv_conf = c\<rparr>, ns')"
  by (simp add: NewServer_def)

lemma net_Listen_Inr:
  assumes "net_Listen network a ns = (Inr l, ns')"
  shows "\<exists>h p n m. split_host_port a = Inr (h, p) \<and> parse_dec p = Some n \<and> n \<le> 65535
     \<and> (if n = 0 then ephemeral_port h ns = Some m else m = n)
     \<and> l = \<lparr>ln_network = network, ln_host = h, ln_port = m\<rparr> \<and> (h, m) \<notin> set (net_bound ns)
     \<and> ns' = ns\<lparr>net_bound := (h, m) # net_bound ns\<rparr>"
  using assms by (auto simp add: net_Listen_def Let_def split: if_splits sum.splits option.splits prod.splits)

lemma ephemeral_port_Some:
  "ephemeral_port h ns = Some p \<Longrightarrow> 32768 \<le> p \<and> p < 61000 \<and> (h, p) \<notin> set (net_bound ns)"
  using find_Some_set [of "\<lambda>p. (h, p) \<notin> set (net_bound ns)" "[32768..<61000]" p] by (simp add: ephemeral_port_def del: upt_rec_numeral)

lemma ephemeral_port_exists:
  "32768 \<le> q \<Longrightarrow> q < 61000 \<Longrightarrow> (h, q) \<notin> set (net_bound ns) \<Longrightarrow> \<exists>p. ephemeral_port h ns = Some p"
  by (cases "ephemeral_port h ns") (auto simp add: ephemeral_port_def find_None_iff simp del: upt_rec_numeral)

lemma split_host_port_port:
  "split_host_port a = Inr (h, p) \<Longrightarrow> p = rev (takeWhile (\<lambda>c. c \<noteq> CHR '':'') (rev a))"
  by (auto simp add: split_host_port_def Let_def split: if_splits)

text \<open>Listening on a free TCP address of a host without a colon binds it.\<close>

text \<open>The address of a host without a colon splits into the host and the printed port.\<close>

lemma split_listen_address:
  "CHR '':'' \<notin> set (conf_Host c) \<Longrightarrow> take 1 (conf_Host c) \<noteq> ''['' \<Longrightarrow>
   split_host_port (listen_address c) = Inr (conf_Host c, go_itoa (conf_Port c))"
  using split_host_port_append [of "conf_Host c" "go_itoa (conf_Port c)"]
    colon_not_digit [OF conjunct2 [OF go_itoa_digits]]
  by (simp add: listen_address_def)

lemma net_Listen_fresh:
  assumes tcp: "conf_Protocol c \<in> set [''tcp'', ''tcp4'', ''tcp6'']"
    and host: "CHR '':'' \<notin> set (conf_Host c)" "take 1 (conf_Host c) \<noteq> ''[''"
    and port: "0 < conf_Port c" "conf_Port c \<le> 65535"
    and free: "(conf_Host c, conf_Port c) \<notin> set (net_bound ns)"
  shows "net_Listen (conf_Protocol c) (listen_address c) ns =
    (Inr \<lparr>ln_network = conf_Protocol c, ln_host = conf_Host c, ln_port = conf_Port c\<rparr>,
     ns\<lparr>net_bound := (conf_Host c, conf_Port c) # net_bound ns\<rparr>)"
proof -
  have sp: "split_host_port (listen_address c) = Inr (conf_Host c, go_itoa (conf_Port c))"
    using split_listen_address [OF host] .
  show ?thesis
    using tcp port free by (simp add: net_Listen_def sp parse_dec_go_itoa)
qed

text \<open>
  What a server built by \<open>NewServer\<close> holds: the registered handler, the
  configuration, and a listener on the configured port, or on a kernel
  chosen one for port 0, which was free and is now bound.
\<close>

lemma NewServer_Inr_fields:
  assumes run: "NewServer c r ns = (Inr s, ns')"
  shows "srv_grpc s = RegisterUserAuthServiceServer grpc_NewServer (AuthHandler r) \<and> srv_conf s = c
     \<and> (if conf_Port c = 0 then ephemeral_port (ln_host (srv_listener s)) ns = Some (ln_port (srv_listener s))
        else ln_port (srv_listener s) = conf_Port c)
     \<and> (ln_host (srv_listener s), ln_port (srv_listener s)) \<notin> set (net_bound ns)
     \<and> ns' = ns\<lparr>net_bound := (ln_host (srv_listener s), ln_port (srv_listener s)) # net_bound ns\<rparr>"
proof -
  obtain l where l: "net_Listen (conf_Protocol c) (listen_address c) ns = (Inr l, ns')"
    using run by (auto simp add: NewServer_def split: prod.splits sum.splits)
  then have s: "s = \<lparr>srv_listener = l, srv_grpc = RegisterUserAuthServiceServer grpc_NewServer (AuthHandler r),
      srv_conf = c\<rparr>"
    using run NewServer_Inr [OF l, where r = r] by simp
  obtain h p n m where sp: "split_host_port (listen_address c) = Inr (h, p)" and pn: "parse_dec p = Some n"
    and m: "if n = 0 then ephemeral_port h ns = Some m else m = n"
    and ln: "l = \<lparr>ln_network = conf_Protocol c, ln_host = h, ln_port = m\<rparr>"
    and fresh: "(h, m) \<notin> set (net_bound ns)" and ns': "ns' = ns\<lparr>net_bound := (h, m) # net_bound ns\<rparr>"
    using net_Listen_Inr [OF l] by blast
  have "n = conf_Port c"
    using pn split_host_port_port [OF sp] port_of_listen_address parse_dec_go_itoa by simp
  then show ?thesis
    using s ln ns' m fresh by simp
qed

section \<open>Properties\<close>

text \<open>
  C16. \<open>NewServer\<close> registers exactly one service, the auth handler it was
  given, under the auth service's name; the server is not yet serving; it
  keeps the configuration; its listener has the configured port (when it is
  not 0), and the listener's address is now bound where it was free before.
\<close>

theorem NewServer_registers_auth:
  assumes run: "NewServer c r ns = (Inr s, ns')"
  shows "grpc_services (srv_grpc s) = [(auth_service_name, AuthHandler r)] \<and> \<not> grpc_serving (srv_grpc s)
     \<and> srv_conf s = c \<and> (conf_Port c \<noteq> 0 \<longrightarrow> ln_port (srv_listener s) = conf_Port c)
     \<and> (ln_host (srv_listener s), ln_port (srv_listener s)) \<in> set (net_bound ns')
     \<and> (ln_host (srv_listener s), ln_port (srv_listener s)) \<notin> set (net_bound ns)"
  using NewServer_Inr_fields [OF run]
  by (auto simp add: RegisterUserAuthServiceServer_def grpc_NewServer_def split: if_splits)

theorem NewServer_registers_auth_witness:
  "grpc_services (srv_grpc (projr (fst (NewServer \<lparr>conf_Protocol = ''tcp'', conf_Host = ''localhost'', conf_Port = 50051\<rparr>
      \<lparr>AuthHandler = (7::nat)\<rparr> \<lparr>net_bound = []\<rparr>)))) = [(auth_service_name, 7)]"
proof -
  let ?c = "\<lparr>conf_Protocol = ''tcp'', conf_Host = ''localhost'', conf_Port = 50051\<rparr>"
  let ?r = "\<lparr>AuthHandler = (7::nat)\<rparr>"
  let ?ns = "\<lparr>net_bound = []\<rparr>"
  have sp: "split_host_port (listen_address ?c) = Inr (''localhost'', go_itoa 50051)"
    using split_host_port_append [of "''localhost''" "go_itoa 50051"]
      colon_not_digit [OF conjunct2 [OF go_itoa_digits]]
    by (simp add: listen_address_def)
  have "net_Listen ''tcp'' (listen_address ?c) ?ns =
      (Inr \<lparr>ln_network = ''tcp'', ln_host = ''localhost'', ln_port = 50051\<rparr>, \<lparr>net_bound = [(''localhost'', 50051)]\<rparr>)"
    by (simp add: net_Listen_def sp parse_dec_go_itoa)
  then have run: "NewServer ?c ?r ?ns = (Inr \<lparr>srv_listener = \<lparr>ln_network = ''tcp'', ln_host = ''localhost'', ln_port = 50051\<rparr>,
      srv_grpc = RegisterUserAuthServiceServer grpc_NewServer 7, srv_conf = ?c\<rparr>, \<lparr>net_bound = [(''localhost'', 50051)]\<rparr>)"
    using NewServer_Inr [where r = ?r] by simp
  show ?thesis using NewServer_registers_auth [OF run] by (simp add: run)
qed

text \<open>
  C17. The address \<open>NewServer\<close> prints is split back by \<open>net\<close> into the
  configured host and the decimal port, which parses back to the configured
  port, for every host without a colon that does not start with a bracket.
\<close>

theorem listen_address_roundtrip:
  assumes "CHR '':'' \<notin> set (conf_Host c)" and "take 1 (conf_Host c) \<noteq> ''[''"
  shows "split_host_port (listen_address c) = Inr (conf_Host c, go_itoa (conf_Port c))
       \<and> parse_dec (go_itoa (conf_Port c)) = Some (conf_Port c)"
  using split_listen_address [OF assms] by (simp add: parse_dec_go_itoa)

theorem listen_address_roundtrip_witness:
  "split_host_port (listen_address \<lparr>conf_Protocol = ''tcp'', conf_Host = ''0.0.0.0'', conf_Port = 50051\<rparr>)
     = Inr (''0.0.0.0'', go_itoa 50051)
   \<and> parse_dec (go_itoa 50051) = Some 50051"
  using listen_address_roundtrip [of "\<lparr>conf_Protocol = ''tcp'', conf_Host = ''0.0.0.0'', conf_Port = 50051\<rparr>"]
  by simp

text \<open>
  C18. A listen failure is returned wrapped: when the configured TCP address
  (with a port other than 0) is already bound, \<open>NewServer\<close> returns no server and an error whose
  message is \<open>"failed to listen to port: "\<close> followed by \<open>net\<close>'s message
  naming the address, and binds nothing.
\<close>

theorem NewServer_bind_failure:
  assumes tcp: "conf_Protocol c \<in> set [''tcp'', ''tcp4'', ''tcp6'']"
    and host: "CHR '':'' \<notin> set (conf_Host c)" "take 1 (conf_Host c) \<noteq> ''[''"
    and port: "0 < conf_Port c" "conf_Port c \<le> 65535"
    and bound: "(conf_Host c, conf_Port c) \<in> set (net_bound ns)"
  shows "\<exists>e. NewServer c r ns = (Inl e, ns) \<and>
     error_msg e = ''failed to listen to port: listen '' @ conf_Protocol c @ '' '' @ listen_address c
                   @ '': bind: address already in use''"
proof -
  have sp: "split_host_port (listen_address c) = Inr (conf_Host c, go_itoa (conf_Port c))"
    using split_listen_address [OF host] .
  have "net_Listen (conf_Protocol c) (listen_address c) ns =
      (Inl (Opaque (''listen '' @ conf_Protocol c @ '' '' @ listen_address c @ '': bind: address already in use'')), ns)"
    using tcp port bound by (simp add: net_Listen_def sp parse_dec_go_itoa)
  then show ?thesis by (simp add: NewServer_Inl)
qed

theorem NewServer_bind_failure_witness:
  "\<exists>e. NewServer \<lparr>conf_Protocol = ''tcp'', conf_Host = ''localhost'', conf_Port = 50051\<rparr> \<lparr>AuthHandler = (7::nat)\<rparr>
        \<lparr>net_bound = [(''localhost'', 50051)]\<rparr> = (Inl e, \<lparr>net_bound = [(''localhost'', 50051)]\<rparr>) \<and>
     error_msg e = ''failed to listen to port: listen tcp '' @ listen_address \<lparr>conf_Protocol = ''tcp'', conf_Host = ''localhost'', conf_Port = 50051\<rparr>
                   @ '': bind: address already in use''"
  using NewServer_bind_failure [of "\<lparr>conf_Protocol = ''tcp'', conf_Host = ''localhost'', conf_Port = 50051\<rparr>"
      "\<lparr>net_bound = [(''localhost'', 50051)]\<rparr>" "\<lparr>AuthHandler = (7::nat)\<rparr>"]
  by simp

text \<open>
  C19. \<open>NewServer\<close> prints the address with \<open>"%s:%d"\<close> rather than
  \<open>net.JoinHostPort\<close>: a configured IPv6 host such as \<open>::1\<close>, which
  contains colons and is not bracketed, makes \<open>NewServer\<close> fail with
  \<open>net\<close>'s \<open>"address <addr>: too many colons in address"\<close> whatever the
  port and the network state.
\<close>

theorem NewServer_ipv6_host_fails:
  assumes tcp: "conf_Protocol c \<in> set [''tcp'', ''tcp4'', ''tcp6'']"
    and v6: "CHR '':'' \<in> set (conf_Host c)" and nobr: "take 1 (conf_Host c) \<noteq> ''[''"
  shows "\<exists>e. NewServer c r ns = (Inl e, ns) \<and>
     error_msg e = ''failed to listen to port: listen '' @ conf_Protocol c @ '': address '' @ listen_address c
                   @ '': too many colons in address''"
proof -
  have d: "CHR '':'' \<notin> set (go_itoa (conf_Port c))"
    using colon_not_digit [OF conjunct2 [OF go_itoa_digits]] .
  have r: "rev (listen_address c) = rev (go_itoa (conf_Port c)) @ CHR '':'' # rev (conf_Host c)"
    by (simp add: listen_address_def)
  have host: "rev (tl (dropWhile (\<lambda>x. x \<noteq> CHR '':'') (rev (listen_address c)))) = conf_Host c"
    using d by (simp add: r dropWhile_neq_append)
  have "split_host_port (listen_address c) = Inl ''too many colons in address''"
    using v6 nobr by (simp add: split_host_port_def Let_def host) (simp add: listen_address_def)
  then have "net_Listen (conf_Protocol c) (listen_address c) ns =
      (Inl (Opaque (''listen '' @ conf_Protocol c @ '': address '' @ listen_address c @ '': too many colons in address'')), ns)"
    using tcp by (simp add: net_Listen_def)
  then show ?thesis by (simp add: NewServer_Inl)
qed

theorem NewServer_ipv6_host_fails_witness:
  "\<exists>e. NewServer \<lparr>conf_Protocol = ''tcp'', conf_Host = ''::1'', conf_Port = 50051\<rparr> \<lparr>AuthHandler = (7::nat)\<rparr>
        \<lparr>net_bound = []\<rparr> = (Inl e, \<lparr>net_bound = []\<rparr>) \<and>
     error_msg e = ''failed to listen to port: listen tcp: address '' @ listen_address \<lparr>conf_Protocol = ''tcp'', conf_Host = ''::1'', conf_Port = 50051\<rparr>
                   @ '': too many colons in address''"
  using NewServer_ipv6_host_fails [of "\<lparr>conf_Protocol = ''tcp'', conf_Host = ''::1'', conf_Port = 50051\<rparr>"
      "\<lparr>AuthHandler = (7::nat)\<rparr>" "\<lparr>net_bound = []\<rparr>"]
  by simp

text \<open>
  C28. A configured port above 65535 is printed in full and rejected by
  \<open>net\<close>'s port check: \<open>NewServer\<close> returns no server, binds nothing, and
  the error reads \<open>"failed to listen to port: listen <protocol>: address
  <port>: invalid port"\<close>.
\<close>

theorem NewServer_invalid_port:
  assumes tcp: "conf_Protocol c \<in> set [''tcp'', ''tcp4'', ''tcp6'']"
    and host: "CHR '':'' \<notin> set (conf_Host c)" "take 1 (conf_Host c) \<noteq> ''[''"
    and big: "65535 < conf_Port c"
  shows "\<exists>e. NewServer c r ns = (Inl e, ns) \<and>
     error_msg e = ''failed to listen to port: listen '' @ conf_Protocol c @ '': address ''
                   @ go_itoa (conf_Port c) @ '': invalid port''"
proof -
  have "net_Listen (conf_Protocol c) (listen_address c) ns =
      (Inl (Opaque (''listen '' @ conf_Protocol c @ '': address '' @ go_itoa (conf_Port c) @ '': invalid port'')), ns)"
    using tcp big by (simp add: net_Listen_def split_listen_address [OF host] parse_dec_go_itoa)
  then show ?thesis by (simp add: NewServer_Inl)
qed

theorem NewServer_invalid_port_witness:
  "\<exists>e. NewServer \<lparr>conf_Protocol = ''tcp'', conf_Host = ''localhost'', conf_Port = 70000\<rparr> \<lparr>AuthHandler = (7::nat)\<rparr>
        \<lparr>net_bound = []\<rparr> = (Inl e, \<lparr>net_bound = []\<rparr>) \<and>
     error_msg e = ''failed to listen to port: listen tcp: address '' @ go_itoa 70000 @ '': invalid port''"
  using NewServer_invalid_port [of "\<lparr>conf_Protocol = ''tcp'', conf_Host = ''localhost'', conf_Port = 70000\<rparr>"
      "\<lparr>AuthHandler = (7::nat)\<rparr>" "\<lparr>net_bound = []\<rparr>"]
  by simp

lemma go_itoa_zero: "go_itoa 0 = ''0''"
  unfolding go_itoa.simps [of 0] by code_simp

text \<open>
  C31. Port 0 is not the port served: with \<open>Port = 0\<close> and a free port in
  the kernel's ephemeral range, \<open>NewServer\<close> succeeds with a listener on a
  kernel-chosen port of that range, which was free and is now bound, while
  the startup line \<open>Listen\<close> logs still reads \<open>"<protocol> server started
  listening on port <0>"\<close>: it prints the configured port, not the
  listener's address.
\<close>

theorem NewServer_port_zero:
  assumes tcp: "conf_Protocol c \<in> set [''tcp'', ''tcp4'', ''tcp6'']"
    and host: "CHR '':'' \<notin> set (conf_Host c)" "take 1 (conf_Host c) \<noteq> ''[''"
    and zero: "conf_Port c = 0"
    and free: "32768 \<le> q" "q < 61000" "(conf_Host c, q) \<notin> set (net_bound ns)"
  shows "\<exists>s ns'. NewServer c r ns = (Inr s, ns')
     \<and> 32768 \<le> ln_port (srv_listener s) \<and> ln_port (srv_listener s) < 61000
     \<and> (conf_Host c, ln_port (srv_listener s)) \<notin> set (net_bound ns)
     \<and> (conf_Host c, ln_port (srv_listener s)) \<in> set (net_bound ns')
     \<and> startup_log_line (srv_conf s) = conf_Protocol c @ '' server started listening on port <0>''"
proof -
  obtain m where m: "ephemeral_port (conf_Host c) ns = Some m"
    using ephemeral_port_exists [OF free] by blast
  have rng: "32768 \<le> m \<and> m < 61000 \<and> (conf_Host c, m) \<notin> set (net_bound ns)"
    using ephemeral_port_Some [OF m] .
  have "net_Listen (conf_Protocol c) (listen_address c) ns =
      (Inr \<lparr>ln_network = conf_Protocol c, ln_host = conf_Host c, ln_port = m\<rparr>,
       ns\<lparr>net_bound := (conf_Host c, m) # net_bound ns\<rparr>)"
    using tcp zero m rng by (simp add: net_Listen_def split_listen_address [OF host] parse_dec_go_itoa)
  then show ?thesis
    using NewServer_Inr [where r = r] rng zero by (simp add: startup_log_line_def go_itoa_zero)
qed

theorem NewServer_port_zero_witness:
  "\<exists>s ns'. NewServer \<lparr>conf_Protocol = ''tcp'', conf_Host = ''localhost'', conf_Port = 0\<rparr> \<lparr>AuthHandler = (7::nat)\<rparr>
        \<lparr>net_bound = []\<rparr> = (Inr s, ns')
     \<and> 32768 \<le> ln_port (srv_listener s) \<and> ln_port (srv_listener s) < 61000
     \<and> startup_log_line (srv_conf s) = ''tcp server started listening on port <0>''"
  using NewServer_port_zero [of "\<lparr>conf_Protocol = ''tcp'', conf_Host = ''localhost'', conf_Port = 0\<rparr>"
      32768 "\<lparr>net_bound = []\<rparr>" "\<lparr>AuthHandler = (7::nat)\<rparr>"]
  by auto

end
