(* ===== verification/System.thy ===== *)
theory System
  imports Source_Service Server
begin

text \<open>
  The running process: \<open>server.go\<close>'s bootstrap composed with the auth
  service of \<open>auth.go\<close> over the user table. A state holds the network's
  bound addresses, the server once \<open>NewServer\<close> has built it, the log, the
  table, the replies sent so far and the error \<open>Listen\<close> returned once it
  has. \<open>sys_handle\<close> is one event: boot (\<open>NewServer\<close> with the auth
  handler, at most once; a failing boot has no successor state: the run
  ends there, as the entry point exits), serve (\<open>Listen\<close>: the startup
  line, then serving), close (the listener fails, \<open>Listen\<close> returns
  \<open>Serve\<close>'s error and the process ends), or one gRPC call dispatched by
  service name to the registered handler's \<open>Store\<close> or \<open>FindBy\<close>. \<open>reachable\<close> is the inductive closure from the initial state;
  \<open>sys_inv\<close> is the invariant every event preserves. The \<open>demo_\<close> states
  form a concrete boot, serve, register trace.
\<close>

type_synonym auth_handler = "user_table AuthService"

record sys_state =
  sys_net :: net_state
  sys_server :: "auth_handler Server option"
  sys_log :: "string list"
  sys_db :: user_table
  sys_replies :: "dto_user go_result list"
  sys_exit :: "go_error option"

definition sys_init :: sys_state where
  "sys_init = \<lparr>sys_net = \<lparr>net_bound = []\<rparr>, sys_server = None, sys_log = [], sys_db = empty_table,
     sys_replies = [], sys_exit = None\<rparr>"

definition grpc_handler :: "'h Server \<Rightarrow> 'h option" where
  "grpc_handler s = map_of (grpc_services (srv_grpc s)) auth_service_name"

datatype sys_event = Boot ServerConf | Serve | Close | Call_Store dto_user | Call_FindBy dto_user

definition sys_call ::
  "(auth_handler \<Rightarrow> dto_user \<Rightarrow> user_table \<Rightarrow> (dto_user, user_table) go_call) \<Rightarrow> dto_user \<Rightarrow> sys_state
   \<Rightarrow> sys_state option" where
  "sys_call m u st =
    (case sys_server st of
       None \<Rightarrow> None
     | Some s \<Rightarrow>
         if \<not> grpc_serving (srv_grpc s) then None
         else (case grpc_handler s of
                 None \<Rightarrow> None
               | Some h \<Rightarrow> (case m h u (sys_db st) of
                     (res, db') \<Rightarrow> Some (st\<lparr>sys_db := db', sys_replies := sys_replies st @ [res]\<rparr>))))"

fun sys_handle :: "sys_event \<Rightarrow> sys_state \<Rightarrow> sys_state option" where
  "sys_handle (Boot c) st =
    (case sys_server st of
       Some _ \<Rightarrow> None
     | None \<Rightarrow> (case NewServer c \<lparr>AuthHandler = NewAuthService table_auth_repo\<rparr> (sys_net st) of
          (Inl _, _) \<Rightarrow> None
        | (Inr s, ns') \<Rightarrow> Some (st\<lparr>sys_net := ns', sys_server := Some s\<rparr>)))"
| "sys_handle Serve st =
    (case sys_server st of
       None \<Rightarrow> None
     | Some s \<Rightarrow>
         if grpc_serving (srv_grpc s) \<or> sys_exit st \<noteq> None then None
         else (case Listen s (sys_log st) of (s', logs) \<Rightarrow> Some (st\<lparr>sys_server := Some s', sys_log := logs\<rparr>)))"
| "sys_handle Close st =
    (case sys_server st of
       None \<Rightarrow> None
     | Some s \<Rightarrow>
         if \<not> grpc_serving (srv_grpc s) \<or> sys_exit st \<noteq> None then None
         else (case Listen_return s (sys_net st) of
                 (err, s', ns') \<Rightarrow> Some (st\<lparr>sys_server := Some s', sys_net := ns', sys_exit := Some err\<rparr>)))"
| "sys_handle (Call_Store u) st = sys_call auth_Store u st"
| "sys_handle (Call_FindBy u) st = sys_call auth_FindBy u st"

fun sys_run :: "sys_event list \<Rightarrow> sys_state \<Rightarrow> sys_state option" where
  "sys_run [] st = Some st"
| "sys_run (e # es) st = (case sys_handle e st of None \<Rightarrow> None | Some st' \<Rightarrow> sys_run es st')"

inductive reachable :: "sys_state \<Rightarrow> bool" where
  init: "reachable sys_init"
| step: "reachable st \<Longrightarrow> sys_handle e st = Some st' \<Longrightarrow> reachable st'"

abbreviation demo_conf :: ServerConf where
  "demo_conf \<equiv> \<lparr>conf_Protocol = ''tcp'', conf_Host = ''localhost'', conf_Port = 50051\<rparr>"

abbreviation demo_server :: "auth_handler Server" where
  "demo_server \<equiv> \<lparr>srv_listener = \<lparr>ln_network = ''tcp'', ln_host = ''localhost'', ln_port = 50051\<rparr>,
     srv_grpc = RegisterUserAuthServiceServer grpc_NewServer auth_on_table, srv_conf = demo_conf\<rparr>"

abbreviation demo_booted :: sys_state where
  "demo_booted \<equiv> \<lparr>sys_net = \<lparr>net_bound = [(''localhost'', 50051)]\<rparr>, sys_server = Some demo_server,
     sys_log = [], sys_db = empty_table, sys_replies = [], sys_exit = None\<rparr>"

abbreviation demo_serving :: sys_state where
  "demo_serving \<equiv> demo_booted\<lparr>sys_server := Some (fst (Listen demo_server [])),
     sys_log := [startup_log_line demo_conf]\<rparr>"

abbreviation demo_stored :: sys_state where
  "demo_stored \<equiv> demo_serving\<lparr>sys_db := ana_table, sys_replies := [Inr (singleUserEntityToDTO ana_row)]\<rparr>"

text \<open>
  What a reply on the auth service's surface can be: one of the service's two
  sentinels, or a user with an assigned id and a digest for a password.
\<close>

definition reply_ok :: "dto_user go_result \<Rightarrow> bool" where
  "reply_ok r =
    (case r of
       Inl e \<Rightarrow> e = svc_ErrRecordNotFound \<or> e = svc_ErrDuplicateEntry
     | Inr d \<Rightarrow> 0 < dto_ID d \<and> is_md5_hex (dto_Password d))"

definition server_inv :: "sys_state \<Rightarrow> auth_handler Server \<Rightarrow> bool" where
  "server_inv st s =
    (grpc_handler s = Some (NewAuthService table_auth_repo)
     \<and> (sys_exit st = None \<longrightarrow> (ln_host (srv_listener s), ln_port (srv_listener s)) \<in> set (net_bound (sys_net st)))
     \<and> sys_log st = (if grpc_serving (srv_grpc s) \<or> sys_exit st \<noteq> None then [startup_log_line (srv_conf s)] else [])
     \<and> (sys_replies st = [] \<or> grpc_serving (srv_grpc s) \<or> sys_exit st \<noteq> None)
     \<and> (sys_exit st \<noteq> None \<longrightarrow> \<not> grpc_serving (srv_grpc s)))"

definition sys_inv :: "sys_state \<Rightarrow> bool" where
  "sys_inv st =
    (table_inv (sys_db st) \<and> list_all (\<lambda>r. is_md5_hex (ent_Password r)) (tbl_rows (sys_db st))
     \<and> list_all reply_ok (sys_replies st)
     \<and> (case sys_server st of
          None \<Rightarrow> sys_log st = [] \<and> sys_replies st = [] \<and> net_bound (sys_net st) = [] \<and> sys_exit st = None
        | Some s \<Rightarrow> server_inv st s))"

lemma sys_call_Some:
  assumes "sys_call m u st = Some st'"
  shows "\<exists>s h res. sys_server st = Some s \<and> grpc_serving (srv_grpc s) \<and> grpc_handler s = Some h
     \<and> m h u (sys_db st) = (res, sys_db st') \<and> st' = st\<lparr>sys_db := sys_db st', sys_replies := sys_replies st @ [res]\<rparr>"
  using assms by (auto simp add: sys_call_def split: option.splits if_splits prod.splits)

lemma grpc_handler_registered [simp]:
  "grpc_handler \<lparr>srv_listener = l, srv_grpc = RegisterUserAuthServiceServer grpc_NewServer h, srv_conf = c\<rparr> = Some h"
  by (simp add: grpc_handler_def RegisterUserAuthServiceServer_def grpc_NewServer_def)

lemma grpc_handler_serving [simp]:
  "grpc_handler (s\<lparr>srv_grpc := (srv_grpc s)\<lparr>grpc_serving := b\<rparr>\<rparr>) = grpc_handler s"
  by (simp add: grpc_handler_def)

text \<open>On the table, every reply of the auth service has one of the expected shapes.\<close>

lemma auth_Store_table_reply_ok:
  "table_inv db \<Longrightarrow> reply_ok (fst (auth_Store (NewAuthService table_auth_repo) u db))"
  by (cases "store_conflict (singleUserDTOToEntity u) db")
    (auto simp add: reply_ok_def auth_Store_table_conflict auth_Store_table_ok table_inv_def pick_nat_def)

lemma auth_FindBy_table_reply_ok:
  assumes inv: "table_inv db" and pw: "list_all (\<lambda>r. is_md5_hex (ent_Password r)) (tbl_rows db)"
  shows "reply_ok (fst (auth_FindBy (NewAuthService table_auth_repo) u db))"
proof (cases "table_FindBy (singleUserDTOToEntity u) db")
  case (Pair res db')
  show ?thesis
  proof (cases res)
    case (Inl e)
    then show ?thesis
      using Pair table_FindBy_Inl [of _ db e db'] by (simp add: auth_FindBy_def reply_ok_def)
  next
    case (Inr r)
    then have "r \<in> set (tbl_rows db)"
      using Pair table_FindBy_Inr by blast
    then show ?thesis
      using Pair Inr inv pw by (auto simp add: auth_FindBy_def reply_ok_def table_inv_def list_all_iff)
  qed
qed

lemma sys_inv_init: "sys_inv sys_init"
proof -
  have "tbl_rows empty_table = []" by (simp add: empty_table_def)
  then show ?thesis using table_inv_empty by (simp add: sys_inv_def sys_init_def)
qed

lemma sys_inv_Boot:
  assumes inv: "sys_inv st" and h: "sys_handle (Boot c) st = Some st'"
  shows "sys_inv st'"
proof -
  obtain s ns' where none: "sys_server st = None"
    and run: "NewServer c \<lparr>AuthHandler = NewAuthService table_auth_repo\<rparr> (sys_net st) = (Inr s, ns')"
    and st': "st' = st\<lparr>sys_net := ns', sys_server := Some s\<rparr>"
    using h by (auto split: option.splits prod.splits sum.splits)
  have s: "s = \<lparr>srv_listener = srv_listener s,
      srv_grpc = RegisterUserAuthServiceServer grpc_NewServer (NewAuthService table_auth_repo), srv_conf = c\<rparr>"
    using NewServer_Inr_fields [OF run] by simp
  have "grpc_handler s = Some (NewAuthService table_auth_repo)"
    by (subst s) (rule grpc_handler_registered)
  moreover have "\<not> grpc_serving (srv_grpc s)"
    by (subst s) (simp add: RegisterUserAuthServiceServer_def grpc_NewServer_def)
  ultimately show ?thesis
    using inv none NewServer_Inr_fields [OF run] by (simp add: sys_inv_def server_inv_def st')
qed

lemma sys_inv_Serve:
  assumes inv: "sys_inv st" and h: "sys_handle Serve st = Some st'"
  shows "sys_inv st'"
proof -
  obtain s where srv: "sys_server st = Some s" and ns: "\<not> grpc_serving (srv_grpc s)"
    and ex: "sys_exit st = None"
    and st': "st' = st\<lparr>sys_server := Some (fst (Listen s (sys_log st))), sys_log := snd (Listen s (sys_log st))\<rparr>"
    using h by (auto split: option.splits prod.splits if_splits)
  show ?thesis
    using inv srv ns ex by (simp add: sys_inv_def server_inv_def st' Listen_def)
qed

lemma sys_inv_call_state:
  assumes inv: "sys_inv st" and srv: "sys_server st = Some s" and serving: "grpc_serving (srv_grpc s)"
    and db': "table_inv db' \<and> list_all (\<lambda>r. is_md5_hex (ent_Password r)) (tbl_rows db')"
    and ok: "reply_ok res"
  shows "sys_inv (st\<lparr>sys_db := db', sys_replies := sys_replies st @ [res]\<rparr>)"
  using inv srv serving db' ok by (simp add: sys_inv_def server_inv_def)

lemma sys_inv_Call_Store:
  assumes inv: "sys_inv st" and h: "sys_handle (Call_Store u) st = Some st'"
  shows "sys_inv st'"
proof -
  obtain s hd res where srv: "sys_server st = Some s" and serving: "grpc_serving (srv_grpc s)"
    and hd: "grpc_handler s = Some hd" and run: "auth_Store hd u (sys_db st) = (res, sys_db st')"
    and st': "st' = st\<lparr>sys_db := sys_db st', sys_replies := sys_replies st @ [res]\<rparr>"
    using sys_call_Some [of auth_Store u st st'] h by auto
  have h: "hd = NewAuthService table_auth_repo"
    using inv srv hd by (simp add: sys_inv_def server_inv_def)
  then have db': "sys_db st' = snd (table_Store (singleUserDTOToEntity u) (sys_db st))"
    using run auth_Store_table_state [of u "sys_db st"] by simp
  have ok: "reply_ok res"
    using inv run auth_Store_table_reply_ok [of "sys_db st" u] by (simp add: sys_inv_def h)
  have "table_inv (sys_db st')"
    using inv table_Store_inv [of "sys_db st"] by (simp add: sys_inv_def db')
  moreover have "list_all (\<lambda>r. is_md5_hex (ent_Password r)) (tbl_rows (sys_db st'))"
    using inv table_Store_rows [of "singleUserDTOToEntity u" "sys_db st"]
    by (auto simp add: sys_inv_def list_all_iff db')
  ultimately show ?thesis
    using sys_inv_call_state [OF inv srv serving _ ok, of "sys_db st'"] st' by simp
qed

lemma sys_inv_Call_FindBy:
  assumes inv: "sys_inv st" and h: "sys_handle (Call_FindBy u) st = Some st'"
  shows "sys_inv st'"
proof -
  obtain s hd res where srv: "sys_server st = Some s" and serving: "grpc_serving (srv_grpc s)"
    and hd: "grpc_handler s = Some hd" and run: "auth_FindBy hd u (sys_db st) = (res, sys_db st')"
    and st': "st' = st\<lparr>sys_db := sys_db st', sys_replies := sys_replies st @ [res]\<rparr>"
    using sys_call_Some [of auth_FindBy u st st'] h by auto
  have h: "hd = NewAuthService table_auth_repo"
    using inv srv hd by (simp add: sys_inv_def server_inv_def)
  then have db: "sys_db st' = sys_db st"
    using run auth_FindBy_table_state [of u "sys_db st"] by simp
  have ok: "reply_ok res"
    using inv run auth_FindBy_table_reply_ok [of "sys_db st" u] by (simp add: sys_inv_def h)
  show ?thesis
    using inv db sys_inv_call_state [OF inv srv serving _ ok, of "sys_db st'"] st' by (simp add: sys_inv_def)
qed

text \<open>Serving ends: the listener fails, \<open>Listen\<close> returns, the process records the error.\<close>

lemma Listen_return_parts:
  "Listen_return s ns =
     (fst (grpc_Serve_return (srv_grpc s) (srv_listener s) ns),
      s\<lparr>srv_grpc := (srv_grpc s)\<lparr>grpc_serving := False\<rparr>\<rparr>,
      ns\<lparr>net_bound := removeAll (ln_host (srv_listener s), ln_port (srv_listener s)) (net_bound ns)\<rparr>)"
  by (simp add: Listen_return_def grpc_Serve_return_def)

lemma sys_inv_Close:
  assumes inv: "sys_inv st" and h: "sys_handle Close st = Some st'"
  shows "sys_inv st'"
proof -
  obtain s where srv: "sys_server st = Some s" and sv: "grpc_serving (srv_grpc s)" and ex: "sys_exit st = None"
    and st': "st' = st\<lparr>sys_server := Some (fst (snd (Listen_return s (sys_net st)))),
                        sys_net := snd (snd (Listen_return s (sys_net st))),
                        sys_exit := Some (fst (Listen_return s (sys_net st)))\<rparr>"
    using h by (auto split: option.splits prod.splits if_splits)
  have "server_inv st s" using inv srv by (simp add: sys_inv_def)
  then show ?thesis
    using inv srv sv ex by (simp add: sys_inv_def server_inv_def st' Listen_return_parts)
qed

lemma sys_inv_step: "sys_inv st \<Longrightarrow> sys_handle e st = Some st' \<Longrightarrow> sys_inv st'"
  by (cases e) (auto intro: sys_inv_Boot sys_inv_Serve sys_inv_Close sys_inv_Call_Store sys_inv_Call_FindBy)

lemma reachable_sys_inv: "reachable st \<Longrightarrow> sys_inv st"
  by (induction rule: reachable.induct) (auto intro: sys_inv_init sys_inv_step)

lemma reachable_run: "reachable st \<Longrightarrow> sys_run es st = Some st' \<Longrightarrow> reachable st'"
  by (induction es arbitrary: st) (auto intro: reachable.step split: option.splits)

lemma sys_inv_server: "sys_inv st \<Longrightarrow> sys_server st = Some s \<Longrightarrow> server_inv st s"
  by (simp add: sys_inv_def)

lemma sys_call_served:
  "sys_server st = Some s \<Longrightarrow> grpc_serving (srv_grpc s) \<Longrightarrow> grpc_handler s = Some h \<Longrightarrow>
   sys_call m u st = Some (st\<lparr>sys_db := snd (m h u (sys_db st)), sys_replies := sys_replies st @ [fst (m h u (sys_db st))]\<rparr>)"
  by (simp add: sys_call_def split: prod.split)

lemma NewServer_demo:
  "NewServer demo_conf \<lparr>AuthHandler = auth_on_table\<rparr> \<lparr>net_bound = []\<rparr> =
     (Inr demo_server, \<lparr>net_bound = [(''localhost'', 50051)]\<rparr>)"
proof -
  have "net_Listen ''tcp'' (listen_address demo_conf) \<lparr>net_bound = []\<rparr> =
      (Inr \<lparr>ln_network = ''tcp'', ln_host = ''localhost'', ln_port = 50051\<rparr>, \<lparr>net_bound = [(''localhost'', 50051)]\<rparr>)"
    using net_Listen_fresh [of demo_conf "\<lparr>net_bound = []\<rparr>"] by simp
  then show ?thesis
    using NewServer_Inr [where r = "\<lparr>AuthHandler = auth_on_table\<rparr>"] by simp
qed

lemma demo_boot: "sys_handle (Boot demo_conf) sys_init = Some demo_booted"
  by (simp add: sys_init_def NewServer_demo)

lemma demo_serve: "sys_handle Serve demo_booted = Some demo_serving"
  by (simp add: RegisterUserAuthServiceServer_def grpc_NewServer_def Listen_def)

lemma demo_store: "sys_handle (Call_Store ana_request) demo_serving = Some demo_stored"
proof -
  have "grpc_handler (fst (Listen demo_server [])) = Some auth_on_table"
    by (simp add: Listen_def grpc_handler_def RegisterUserAuthServiceServer_def grpc_NewServer_def)
  moreover have "grpc_serving (srv_grpc (fst (Listen demo_server [])))"
    by (simp add: Listen_def)
  ultimately show ?thesis
    using auth_Store_table_ok [OF ana_no_conflict] by (simp add: sys_call_served)
qed

lemma demo_reachable: "reachable demo_booted" "reachable demo_serving" "reachable demo_stored"
proof -
  show b: "reachable demo_booted" using reachable.step [OF reachable.init demo_boot] .
  show s: "reachable demo_serving" using reachable.step [OF b demo_serve] .
  show "reachable demo_stored" using reachable.step [OF s demo_store] .
qed

section \<open>Progress\<close>

lemma sys_run_append:
  "sys_run (es @ [e]) st = (case sys_run es st of None \<Rightarrow> None | Some st1 \<Rightarrow> sys_handle e st1)"
  by (induction es arbitrary: st) (simp_all split: option.split)

text \<open>A server that is not serving can be started; it then serves with the auth handler kept.\<close>

lemma sys_handle_Serve_ready:
  assumes srv: "sys_server st = Some s" and ns: "\<not> grpc_serving (srv_grpc s)" and ex: "sys_exit st = None"
  shows "\<exists>s'. sys_handle Serve st = Some (st\<lparr>sys_server := Some s', sys_log := snd (Listen s (sys_log st))\<rparr>)
     \<and> grpc_serving (srv_grpc s') \<and> grpc_handler s' = grpc_handler s"
  using srv ns ex by (intro exI [of _ "fst (Listen s (sys_log st))"]) (simp add: Listen_def)

text \<open>
  From every reachable state that has not ended, at most two events, a boot on the demo
  address and a serve, lead to a serving server with the auth handler,
  without a reply in between.
\<close>

lemma reachable_serving_ready:
  assumes reach: "reachable st" and ex: "sys_exit st = None"
  shows "\<exists>es st1 s. length es \<le> 2 \<and> sys_run es st = Some st1 \<and> sys_server st1 = Some s
     \<and> grpc_serving (srv_grpc s) \<and> grpc_handler s = Some auth_on_table \<and> sys_replies st1 = sys_replies st
     \<and> sys_db st1 = sys_db st"
proof (cases "sys_server st")
  case None
  have inv: "sys_inv st" using reachable_sys_inv [OF reach] .
  then have net: "sys_net st = \<lparr>net_bound = []\<rparr>"
    using None by (simp add: sys_inv_def)
  let ?st0 = "st\<lparr>sys_net := \<lparr>net_bound = [(''localhost'', 50051)]\<rparr>, sys_server := Some demo_server\<rparr>"
  have b: "sys_handle (Boot demo_conf) st = Some ?st0"
    using None by (simp add: net NewServer_demo)
  have "\<not> grpc_serving (srv_grpc demo_server)"
    by (simp add: RegisterUserAuthServiceServer_def grpc_NewServer_def)
  then obtain s' where s': "sys_handle Serve ?st0 = Some (?st0\<lparr>sys_server := Some s', sys_log := snd (Listen demo_server (sys_log st))\<rparr>)"
      and sv: "grpc_serving (srv_grpc s')" and hd: "grpc_handler s' = Some auth_on_table"
    using sys_handle_Serve_ready [of ?st0 demo_server] ex by auto
  have "sys_run [Boot demo_conf, Serve] st =
      Some (?st0\<lparr>sys_server := Some s', sys_log := snd (Listen demo_server (sys_log st))\<rparr>)"
    by (simp only: sys_run.simps b s' option.case)
  then show ?thesis
    using sv hd by (intro exI [of _ "[Boot demo_conf, Serve]"]) simp
next
  case (Some s)
  have hd: "grpc_handler s = Some auth_on_table"
    using sys_inv_server [OF reachable_sys_inv [OF reach] Some] by (simp add: server_inv_def)
  show ?thesis
  proof (cases "grpc_serving (srv_grpc s)")
    case True
    show ?thesis
      by (rule exI [of _ "[]"]) (simp add: Some True hd)
  next
    case False
    then obtain s' where s': "sys_handle Serve st = Some (st\<lparr>sys_server := Some s', sys_log := snd (Listen s (sys_log st))\<rparr>)"
        and sv: "grpc_serving (srv_grpc s')" and hd': "grpc_handler s' = grpc_handler s"
      using sys_handle_Serve_ready [OF Some False ex] by auto
    have "sys_run [Serve] st = Some (st\<lparr>sys_server := Some s', sys_log := snd (Listen s (sys_log st))\<rparr>)"
      by (simp only: sys_run.simps s' option.case)
    then show ?thesis
      using sv hd' hd by (intro exI [of _ "[Serve]"]) simp
  qed
qed

end
