(* ===== verification/Spec2Isabelle.thy ===== *)
theory Spec2Isabelle
  imports System
begin

text \<open>
  \<^bold>\<open>Verification development of restaurant-user.\<close>

  The program (src/internal) is the user microservice of a restaurant
  system: \<open>server/server.go\<close> builds a gRPC server that listens on the
  configured address and serves one service, the user auth service;
  \<open>service/auth.go\<close> is that service's business layer (\<open>AuthService\<close>:
  \<open>FindBy\<close> for login, \<open>Store\<close> for registration), converting DTOs to
  repository entities with the password replaced by its MD5 digest and
  translating the repository's sentinel errors into the service's;
  \<open>service/user.go\<close> is a second service (\<open>SourceService\<close>: \<open>Store\<close>, \<open>Find\<close>,
  \<open>Destroy\<close>, \<open>Update\<close>) over another repository interface. The repository,
  the MD5 helper, the config, the proto handlers and the entry point are not
  under src/; they are modelled from their contracts (spec.md and the Go
  libraries they use).

  Theories, in import order:
  \<^item> \<open>Prelude\<close>: Go's error values (\<open>go_error\<close>: sentinel, wrapped, opaque),
    \<open>errors.Is\<close> as \<open>errors_is\<close> along the wrap chain, \<open>errors.Wrap\<close>, the
    message of an error; result types \<open>go_error + 'a\<close> paired with the state;
    shared list and map lemmas.
  \<^item> \<open>Encryption\<close>: the \<open>encryption.EncodeMD5\<close> helper: MD5 (RFC 1321, as Go's
    crypto/md5 computes it) on 32-bit words, padding, the block loop
    \<open>md5_blocks\<close> (a \<open>function\<close> terminating by the remaining length), and
    \<open>hex.EncodeToString\<close> with its decoder. Lemmas: the round functions agree
    with the RFC's, \<open>rotl32\<close> is \<open>word_rotl\<close>, the little-endian word packing
    round-trips, padding gives whole blocks and keeps the message as a
    prefix, the block loop streams, hex encoding round-trips and every digest
    is 32 lower-case hex characters; two RFC test vectors are computed.
    The block loop terminates on every input (its domain predicate is
    total) and equals the reference \<open>md5_Sum_ref\<close>: the fold of the
    compression function over the 64-byte blocks, which cover the padded
    message exactly.
  \<^item> \<open>User_Model\<close>: \<open>model.UserDTO\<close> and \<open>entity.User\<close> as records, the two
    repository interfaces (\<open>ar_\<close> for auth.go's, \<open>sr_\<close> for user.go's) as
    records of functions over an abstract store \<open>'s\<close>, the sentinels.
  \<^item> \<open>Repository\<close>: a GORM-like table implementing both interfaces (zero
    fields do not constrain a query or an update; a duplicate email or id is
    the duplicate sentinel; ids and timestamps are assigned on store), its
    invariant \<open>table_inv\<close> and its preservation by every operation, and the
    view \<open>users_by_email\<close> of the table as a map.
  \<^item> \<open>Auth_Service\<close> (auth.go, lines 15-86): the conversions, \<open>NewAuthService\<close>,
    \<open>auth_FindBy\<close> and \<open>auth_Store\<close> over any repository, abstract
    specifications \<open>login_spec\<close> and \<open>register_spec\<close> over the email map, and
    claims C1-C9: refinement of both, the store/login round trip, every
    error branch, the conversions' round trip, the digest stored and the
    digest checked on login.
  \<^item> \<open>Source_Service\<close> (user.go): the four operations and \<open>NewSourceService\<close>;
    Go's mutation of the caller's DTO is modelled by returning the caller's
    record along with the result. Claims C10-C15 (the password handling of
    \<open>Update\<close> and \<open>Store\<close>, the retry double digest, untranslated errors,
    only digests stored, \<open>Find\<close> with a plaintext password finds nothing),
    C25 (on the shared table its \<open>Store\<close> is equivalent to the auth
    service's up to the translation of the duplicate-entry error) and C29
    (a \<open>Find\<close> with the record \<open>Store\<close> left behind finds the user).
  \<^item> \<open>Server\<close> (server.go): \<open>ServerConf\<close>, \<open>fmt\<close>'s \<open>%d\<close> (\<open>go_itoa\<close>), the
    address string, \<open>net.Listen\<close> for TCP (address splitting, port parsing,
    a table of bound addresses, port 0 binding the first free port of the
    ephemeral range \<open>[32768, 61000)\<close>), the gRPC server as its registered services
    and a serving flag, \<open>NewServer\<close> and \<open>Listen\<close>, and what \<open>Listen\<close>
    returns (\<open>Listen_return\<close>): the error \<open>grpc.Server.Serve\<close> returns when
    its listener fails, after which it no longer serves and the address is
    free. Claims C16-C19, C28 (a port above 65535 is rejected with net's
    invalid-port error) and C31 (with port 0 the listener is bound on an
    ephemeral port while the startup line says port 0).
  \<^item> \<open>System\<close>: the process as events on a state (network, server, log,
    table, replies, exit error): boot (a failing boot has no successor
    state: that run ends), serve, the listener's failure (which makes
    \<open>Listen\<close> return and ends the process), and gRPC calls dispatched by
    service name;
    reachability as an inductive predicate and the invariant \<open>sys_inv\<close>
    preserved by every event (the table invariant, digests only in the
    table, well-formed replies \<open>reply_ok\<close>, no address bound before boot,
    the startup line logged once serving, replies only while serving,
    dispatch to the auth service); a concrete boot, serve, register trace;
    progress: from any reachable state that has not ended a boot and a
    serve reach a serving server. The process model itself (the entry
    point) is not under src/; its claims are in the root theory.
  \<^item> this theory: claims C20-C24 and C26-C27 on the whole process, by rule
    induction over \<open>reachable\<close>: digests only, ordering
    of startup and replies, routing, register-then-login end to end,
    duplicate registration, progress of calls (C26), the shapes of
    replies (C27) and racing registrations of one email (C30).

  Bounds and fuel: no model needs fuel. The code under src/ has no loop
  or recursion; the loops it calls are in the libraries. The MD5 block loop
  terminates by the measure \<open>length\<close> (\<open>md5_blocks_terminates\<close> states it
  as totality of its domain); \<open>go_itoa\<close> by its argument; every other operation is
  structural or non-recursive. Ports are \<open>nat\<close> with the range check
  (\<open>\<le> 65535\<close>) net.Listen performs, and port 0 searches the fixed
  range \<open>[32768, 61000)\<close>, Linux's default \<open>ip_local_port_range\<close>; MD5 arithmetic is \<open>32 word\<close> with Go's
  wrap-around.

  Not modelled: the gRPC transport and protobuf encoding (the service is
  reached by name and its reply recorded), the proto handlers under
  server/resource and server/handler (not under src/; the system calls the
  service with the request DTO), the logger's formatting beyond the line
  text, the real database (replaced by the table with the contract's
  sentinels), concurrency (calls are served one at a time, in the order of
  the events; the listener's failure is an event of the environment, since
  nothing under src/ closes it), and bracketed IPv6 hosts in \<open>net.SplitHostPort\<close> beyond the
  bracket check. In \<open>net.Listen\<close>: networks other than tcp, tcp4 and tcp6
  are all rejected as unknown (Go rejects only names it does not know:
  udp fails later with an unexpected address type, unix listens on a
  socket path); the bind and accept errors print the address as
  configured, where Go prints the resolved one; a named port (a services-database lookup) and
  an empty port are not resolved. \<open>NewServer\<close> always prints a decimal
  port, so the last two are unreachable from it. The kernel's choice of an
  ephemeral port is the least free one of the range (a real kernel picks
  any free one; the claims only use that it is free and in the range).

  Findings, each proved: user.go's \<open>Store\<close> mutates the caller's DTO, so a
  retry stores the digest of the digest (C12); user.go passes repository
  errors through untranslated (C13); user.go's \<open>Find\<close> looks up the plaintext
  password the table never holds (C15), while a \<open>Find\<close> with the record
  \<open>Store\<close> mutated does find the user (C29); auth.go hashes an empty
  password too, so an email-only lookup matches only a user whose password
  digest is that of the empty string (C9); server.go formats the address
  with \<open>%s:%d\<close>, so an IPv6 host fails to listen (C19); server.go
  logs the configured port, so with port 0 the startup line names port 0,
  not the port listened on (C31).
\<close>

text \<open>
  C20. Every password the table holds in a reachable state is an MD5 digest
  in lower-case hex (32 characters of \<open>0-9a-f\<close>): no plaintext password
  reaches the store through the served auth calls.
\<close>

theorem reachable_passwords_hashed:
  "reachable st \<Longrightarrow> r \<in> set (tbl_rows (sys_db st)) \<Longrightarrow> is_md5_hex (ent_Password r)"
  using reachable_sys_inv by (fastforce simp add: sys_inv_def list_all_iff)

theorem reachable_passwords_hashed_witness: "is_md5_hex (ent_Password ana_row)"
  using reachable_passwords_hashed [OF demo_reachable(3), of ana_row] ana_table_rows by simp

text \<open>
  C21. Calls are answered only after startup: in a reachable state with any
  reply, the server exists, the log holds exactly the one startup line of its
  configuration, and the server is serving or serving has ended.
\<close>

theorem reachable_replies_after_startup:
  assumes "reachable st" and "sys_replies st \<noteq> []"
  shows "\<exists>s. sys_server st = Some s \<and> sys_log st = [startup_log_line (srv_conf s)]
     \<and> (grpc_serving (srv_grpc s) \<or> (\<exists>e. sys_exit st = Some e))"
  using reachable_sys_inv [OF assms(1)] assms(2)
  by (auto simp add: sys_inv_def server_inv_def split: option.splits)

theorem reachable_replies_after_startup_witness:
  "\<exists>s. sys_server demo_stored = Some s \<and> sys_log demo_stored = [startup_log_line (srv_conf s)]
     \<and> (grpc_serving (srv_grpc s) \<or> (\<exists>e. sys_exit demo_stored = Some e))"
  using reachable_replies_after_startup [OF demo_reachable(3)] by simp

text \<open>
  C22. In every reachable state the server routes the auth service's name to
  the auth service over the table, and its listener's host and port stay
  bound in the network until serving ends.
\<close>

theorem reachable_routes_to_auth:
  assumes "reachable st" and "sys_server st = Some s"
  shows "grpc_handler s = Some (NewAuthService table_auth_repo)
     \<and> (sys_exit st = None \<longrightarrow> (ln_host (srv_listener s), ln_port (srv_listener s)) \<in> set (net_bound (sys_net st)))"
  using sys_inv_server [OF reachable_sys_inv [OF assms(1)] assms(2)] by (simp add: server_inv_def)

theorem reachable_routes_to_auth_witness:
  "grpc_handler demo_server = Some auth_on_table
   \<and> (''localhost'', 50051) \<in> set (net_bound (sys_net demo_booted))"
  using reachable_routes_to_auth [OF demo_reachable(1), of demo_server] by simp

text \<open>
  C23. End to end: on a serving server, registering a new user and then
  logging in with the same email and password yields two successful replies
  carrying the same user, with the stored password the digest.
\<close>

theorem system_register_then_login:
  assumes reach: "reachable st" and srv: "sys_server st = Some s" and serving: "grpc_serving (srv_grpc s)"
    and new: "dto_ID u = 0" "dto_Email u \<notin> dom (users_by_email (sys_db st))"
    and req: "login_request v" "dto_Email v = dto_Email u" "dto_Password v = dto_Password u"
  shows "\<exists>st' d. sys_run [Call_Store u, Call_FindBy v] st = Some st'
     \<and> sys_replies st' = sys_replies st @ [Inr d, Inr d]
     \<and> dto_Email d = dto_Email u \<and> dto_Password d = encode_md5 (dto_Password u)"
proof -
  have inv: "sys_inv st" using reachable_sys_inv [OF reach] .
  have hd: "grpc_handler s = Some auth_on_table"
    using sys_inv_server [OF inv srv] by (simp add: server_inv_def)
  have nc: "\<not> store_conflict (singleUserDTOToEntity u) (sys_db st)"
    using new by (simp add: store_conflict_by_email)
  let ?r = "stored_row (singleUserDTOToEntity u) (sys_db st)"
  let ?st1 = "st\<lparr>sys_db := snd (table_Store (singleUserDTOToEntity u) (sys_db st)),
                 sys_replies := sys_replies st @ [Inr (singleUserEntityToDTO ?r)]\<rparr>"
  have s1: "sys_handle (Call_Store u) st = Some ?st1"
    using sys_call_served [OF srv serving hd] by (simp add: auth_Store_table_ok [OF nc])
  have t: "table_inv (sys_db st)" using inv by (simp add: sys_inv_def)
  have "sys_handle (Call_FindBy v) ?st1 =
      Some (?st1\<lparr>sys_replies := sys_replies ?st1 @ [Inr (singleUserEntityToDTO ?r)]\<rparr>)"
    using sys_call_served [of ?st1 s auth_on_table] srv serving hd auth_FindBy_after_Store [OF t nc req]
    by simp
  then show ?thesis
    using s1 by (simp add: conversion_fields)
qed

theorem system_register_then_login_witness:
  "\<exists>st' d. sys_run [Call_Store ana_request, Call_FindBy ana_login] demo_serving = Some st'
     \<and> sys_replies st' = [Inr d, Inr d] \<and> dto_Email d = ''ana@example.com''
     \<and> dto_Password d = encode_md5 ''hunter2''"
  using system_register_then_login [OF demo_reachable(2), of "fst (Listen demo_server [])" ana_request ana_login]
  by (simp add: Listen_def login_request_def users_by_email_def empty_table_def)

text \<open>
  C24. Registering an email the table already holds is answered with the
  service's duplicate-entry sentinel and leaves the table unchanged.
\<close>

theorem system_duplicate_register:
  assumes reach: "reachable st" and srv: "sys_server st = Some s" and serving: "grpc_serving (srv_grpc s)"
    and new: "dto_ID u = 0" and dup: "dto_Email u \<in> dom (users_by_email (sys_db st))"
  shows "sys_handle (Call_Store u) st = Some (st\<lparr>sys_replies := sys_replies st @ [Inl svc_ErrDuplicateEntry]\<rparr>)"
proof -
  have hd: "grpc_handler s = Some auth_on_table"
    using sys_inv_server [OF reachable_sys_inv [OF reach] srv] by (simp add: server_inv_def)
  have "store_conflict (singleUserDTOToEntity u) (sys_db st)"
    using new dup by (simp add: store_conflict_by_email)
  then show ?thesis
    using sys_call_served [OF srv serving hd] by (simp add: auth_Store_table_conflict)
qed

theorem system_duplicate_register_witness:
  "sys_handle (Call_Store ana_request) demo_stored =
     Some (demo_stored\<lparr>sys_replies := [Inr (singleUserEntityToDTO ana_row), Inl svc_ErrDuplicateEntry]\<rparr>)"
  using system_duplicate_register [OF demo_reachable(3), of "fst (Listen demo_server [])" ana_request]
  by (simp add: Listen_def users_by_email_def ana_table_rows)

text \<open>
  C26. Progress: from every reachable state in which serving has not ended,
  whatever has happened so far, at most two events (boot, serve) lead to a state where a \<open>Store\<close> call,
  and likewise a \<open>FindBy\<close> call, is answered with exactly the reply the auth
  service computes on the current table.
\<close>

theorem reachable_call_answered:
  assumes reach: "reachable st" and live: "sys_exit st = None"
  shows "(\<exists>es st'. length es \<le> 2 \<and> sys_run (es @ [Call_Store u]) st = Some st'
            \<and> sys_replies st' = sys_replies st @ [fst (auth_Store (NewAuthService table_auth_repo) u (sys_db st))])
       \<and> (\<exists>es st'. length es \<le> 2 \<and> sys_run (es @ [Call_FindBy v]) st = Some st'
            \<and> sys_replies st' = sys_replies st @ [fst (auth_FindBy (NewAuthService table_auth_repo) v (sys_db st))])"
proof -
  obtain es st1 s where es: "length es \<le> 2" and run: "sys_run es st = Some st1"
    and srv: "sys_server st1 = Some s" and sv: "grpc_serving (srv_grpc s)"
    and hd: "grpc_handler s = Some auth_on_table" and rp: "sys_replies st1 = sys_replies st"
    and db: "sys_db st1 = sys_db st"
    using reachable_serving_ready [OF reach live] by blast
  have "sys_run (es @ [Call_Store u]) st = Some (st1\<lparr>sys_db := snd (auth_Store auth_on_table u (sys_db st1)),
      sys_replies := sys_replies st1 @ [fst (auth_Store auth_on_table u (sys_db st1))]\<rparr>)"
    using sys_call_served [OF srv sv hd] by (simp add: sys_run_append run)
  moreover have "sys_run (es @ [Call_FindBy v]) st = Some (st1\<lparr>sys_db := snd (auth_FindBy auth_on_table v (sys_db st1)),
      sys_replies := sys_replies st1 @ [fst (auth_FindBy auth_on_table v (sys_db st1))]\<rparr>)"
    using sys_call_served [OF srv sv hd] by (simp add: sys_run_append run)
  ultimately show ?thesis
    using es rp db by auto
qed

theorem reachable_call_answered_witness:
  "(\<exists>es st'. length es \<le> 2 \<and> sys_run (es @ [Call_Store ana_request]) sys_init = Some st'
      \<and> sys_replies st' = [fst (auth_Store auth_on_table ana_request empty_table)])
   \<and> (\<exists>es st'. length es \<le> 2 \<and> sys_run (es @ [Call_FindBy ana_login]) sys_init = Some st'
      \<and> sys_replies st' = [fst (auth_FindBy auth_on_table ana_login empty_table)])"
proof -
  have "sys_replies sys_init = []" and "sys_db sys_init = empty_table" and live: "sys_exit sys_init = None"
    by (simp_all add: sys_init_def)
  then show ?thesis
    using reachable_call_answered [OF reachable.init live, of ana_request ana_login] by simp
qed

text \<open>
  C27. The shapes of replies: every reply the process has sent in a
  reachable state is the service's \<open>ErrRecordNotFound\<close>, the service's
  \<open>ErrDuplicateEntry\<close>, or a user with an assigned (non-zero) id whose
  password field is an MD5 digest; no repository error and no plaintext
  password crosses the RPC boundary.
\<close>

theorem reachable_replies_well_formed: "reachable st \<Longrightarrow> list_all reply_ok (sys_replies st)"
  using reachable_sys_inv by (simp add: sys_inv_def)

theorem reachable_replies_well_formed_witness:
  "reply_ok (Inr (singleUserEntityToDTO ana_row))"
  using reachable_replies_well_formed [OF demo_reachable(3)] by simp

text \<open>
  C30. Racing registrations: two \<open>Store\<close> calls with the same new email,
  served one after the other in either order (the statement is symmetric
  in the two requests), give exactly one success and one duplicate-entry
  reply, and the table keeps the first user under that email.
\<close>

theorem racing_registrations:
  assumes reach: "reachable st" and srv: "sys_server st = Some s" and serving: "grpc_serving (srv_grpc s)"
    and ids: "dto_ID u = 0" "dto_ID v = 0" and same: "dto_Email v = dto_Email u"
    and new: "dto_Email u \<notin> dom (users_by_email (sys_db st))"
  shows "\<exists>st' d. sys_run [Call_Store u, Call_Store v] st = Some st'
     \<and> sys_replies st' = sys_replies st @ [Inr d, Inl svc_ErrDuplicateEntry]
     \<and> dto_Password d = encode_md5 (dto_Password u)
     \<and> users_by_email (sys_db st') (dto_Email u) = Some (stored_row (singleUserDTOToEntity u) (sys_db st))"
proof -
  have hd: "grpc_handler s = Some auth_on_table"
    using sys_inv_server [OF reachable_sys_inv [OF reach] srv] by (simp add: server_inv_def)
  have nc: "\<not> store_conflict (singleUserDTOToEntity u) (sys_db st)"
    using ids new by (simp add: store_conflict_by_email)
  let ?r = "stored_row (singleUserDTOToEntity u) (sys_db st)"
  let ?db1 = "snd (table_Store (singleUserDTOToEntity u) (sys_db st))"
  let ?st1 = "st\<lparr>sys_db := ?db1, sys_replies := sys_replies st @ [Inr (singleUserEntityToDTO ?r)]\<rparr>"
  have s1: "sys_handle (Call_Store u) st = Some ?st1"
    using sys_call_served [OF srv serving hd] by (simp add: auth_Store_table_ok [OF nc])
  have users: "users_by_email ?db1 = (users_by_email (sys_db st))(dto_Email u \<mapsto> ?r)"
    using users_by_email_Store [OF nc] by simp
  then have "store_conflict (singleUserDTOToEntity v) ?db1"
    using ids same by (simp add: store_conflict_by_email)
  then have "sys_handle (Call_Store v) ?st1 =
      Some (?st1\<lparr>sys_replies := sys_replies ?st1 @ [Inl svc_ErrDuplicateEntry]\<rparr>)"
    using sys_call_served [of ?st1 s auth_on_table] srv serving hd by (simp add: auth_Store_table_conflict)
  then show ?thesis
    using s1 users by simp
qed

theorem racing_registrations_witness:
  "\<exists>st' d. sys_run [Call_Store ana_request, Call_Store (ana_request\<lparr>dto_Password := ''other''\<rparr>)] demo_serving = Some st'
     \<and> sys_replies st' = [Inr d, Inl svc_ErrDuplicateEntry] \<and> dto_Password d = encode_md5 ''hunter2''"
proof -
  have srv: "sys_server demo_serving = Some (fst (Listen demo_server []))" by simp
  have sv: "grpc_serving (srv_grpc (fst (Listen demo_server [])))" by (simp add: Listen_def)
  have new: "dto_Email ana_request \<notin> dom (users_by_email (sys_db demo_serving))"
    by (simp add: users_by_email_def empty_table_def)
  have "sys_replies demo_serving = []" by simp
  then show ?thesis
    using racing_registrations [OF demo_reachable(2) srv sv _ _ _ new, of "ana_request\<lparr>dto_Password := ''other''\<rparr>"]
    by (simp del: sys_run.simps) blast
qed

end
